theory Spec2Isabelle
  imports Complex_Main "HOL-Library.Multiset" "HOL-Library.Product_Lexorder"
begin

section \<open>JavaScript strings and numbers\<close>

text \<open>
  A JavaScript string is a sequence of UTF-16 code units and \<open>s.length\<close> counts them.
  The model uses \<^typ>\<open>string\<close>, one \<^typ>\<open>char\<close> per code unit, so it covers the strings
  whose code units are below 256 (Latin-1). On these, \<open>trim\<close> removes the white space
  and line terminators TAB, LF, VT, FF, CR, SPACE and NBSP from both ends.
\<close>

definition is_space :: "char \<Rightarrow> bool" where
  "is_space c = (c \<in> set [CHR 0x09, CHR 0x0A, CHR 0x0B, CHR 0x0C, CHR 0x0D, CHR 0x20, CHR 0xA0])"

definition trim :: "string \<Rightarrow> string" where
  "trim s = rev (dropWhile is_space (rev (dropWhile is_space s)))"

text \<open>
  A number is an IEEE double. The model carries the exact value of a finite number as a
  rational and has the three special values apart. \<open>number_for\<close> is the range part of
  the rounding of a mathematical value to a double: a magnitude of at most \<open>2^-1075\<close>
  becomes zero and one of at least \<open>2^1024 - 2^970\<close> becomes infinite. The rounding of
  the digits inside that range is not modelled; it changes neither the sign of a value
  nor an integer below \<open>2^53\<close>.
\<close>

datatype jsnum = NaN | NegInfinity | Num rat | Infinity

definition number_for :: "rat \<Rightarrow> jsnum" where
  "number_for v =
     (if \<bar>v\<bar> \<le> 1 / 2 ^ 1075 then Num 0
      else if 2 ^ 1024 - 2 ^ 970 \<le> \<bar>v\<bar> then (if 0 < v then Infinity else NegInfinity)
      else Num v)"

fun js_neg :: "jsnum \<Rightarrow> jsnum" where
  "js_neg NaN = NaN"
| "js_neg NegInfinity = Infinity"
| "js_neg (Num v) = Num (- v)"
| "js_neg Infinity = NegInfinity"

text \<open>The comparison \<open>x <= y\<close>: false as soon as one side is \<open>NaN\<close>.\<close>

fun js_le :: "jsnum \<Rightarrow> jsnum \<Rightarrow> bool" where
  "js_le NaN _ = False"
| "js_le _ NaN = False"
| "js_le NegInfinity _ = True"
| "js_le _ Infinity = True"
| "js_le (Num a) (Num b) = (a \<le> b)"
| "js_le (Num a) NegInfinity = False"
| "js_le Infinity _ = False"

definition is_digit :: "char \<Rightarrow> bool" where
  "is_digit c = (48 \<le> (of_char c :: nat) \<and> (of_char c :: nat) \<le> 57)"

definition digit_value :: "char \<Rightarrow> nat" where
  "digit_value c = of_char c - 48"

definition digits_value :: "string \<Rightarrow> nat" where
  "digits_value ds = foldl (\<lambda>a c. 10 * a + digit_value c) 0 ds"

definition pow10 :: "int \<Rightarrow> rat" where
  "pow10 e = (if 0 \<le> e then 10 ^ nat e else 1 / 10 ^ nat (- e))"

text \<open>
  \<open>parseFloat\<close> skips leading white space and reads the longest prefix that is a
  \<open>StrDecimalLiteral\<close>: a sign, then \<open>Infinity\<close>, or digits with an optional fraction
  and an optional exponent. An exponent counts only when at least one digit follows its
  \<open>e\<close> and sign. Without such a prefix the result is \<open>NaN\<close>.
\<close>

fun exponent_part :: "string \<Rightarrow> int" where
  "exponent_part [] = 0"
| "exponent_part (c # r) =
     (if c = CHR ''e'' \<or> c = CHR ''E'' then
        (case r of
           [] \<Rightarrow> 0
         | d # r' \<Rightarrow>
             if d = CHR ''-'' then - int (digits_value (takeWhile is_digit r'))
             else if d = CHR ''+'' then int (digits_value (takeWhile is_digit r'))
             else int (digits_value (takeWhile is_digit r)))
      else 0)"

definition str_unsigned_decimal :: "string \<Rightarrow> jsnum" where
  "str_unsigned_decimal s =
     (if take 8 s = ''Infinity'' then Infinity
      else
        let ip = takeWhile is_digit s; r = dropWhile is_digit s in
        (case r of
           [] \<Rightarrow> if ip = [] then NaN else number_for (of_nat (digits_value ip))
         | c # r1 \<Rightarrow>
             if c = CHR ''.'' then
               (let fp = takeWhile is_digit r1; r2 = dropWhile is_digit r1 in
                if ip = [] \<and> fp = [] then NaN
                else number_for (of_nat (digits_value (ip @ fp))
                                  * pow10 (exponent_part r2 - int (length fp))))
             else if ip = [] then NaN
             else number_for (of_nat (digits_value ip) * pow10 (exponent_part r))))"

definition parseFloat :: "string \<Rightarrow> jsnum" where
  "parseFloat s =
     (case dropWhile is_space s of
        [] \<Rightarrow> NaN
      | c # r \<Rightarrow>
          if c = CHR ''-'' then js_neg (str_unsigned_decimal r)
          else if c = CHR ''+'' then str_unsigned_decimal r
          else str_unsigned_decimal (c # r))"

text \<open>
  \<open>parseInt\<close> with no radix: leading white space, a sign, then \<open>0x\<close> or \<open>0X\<close> for
  radix 16, then the longest run of digits of the radix; \<open>NaN\<close> when the run is empty.
\<close>

definition hex_value :: "char \<Rightarrow> nat option" where
  "hex_value c =
     (let n = (of_char c :: nat) in
      if 48 \<le> n \<and> n \<le> 57 then Some (n - 48)
      else if 65 \<le> n \<and> n \<le> 70 then Some (n - 55)
      else if 97 \<le> n \<and> n \<le> 102 then Some (n - 87)
      else None)"

definition radix_digits :: "nat \<Rightarrow> string \<Rightarrow> nat list" where
  "radix_digits R s =
     map (\<lambda>c. the (hex_value c))
         (takeWhile (\<lambda>c. case hex_value c of None \<Rightarrow> False | Some d \<Rightarrow> d < R) s)"

definition parseInt :: "string \<Rightarrow> jsnum" where
  "parseInt s =
     (let t = dropWhile is_space s;
          neg = (take 1 t = ''-'');
          u = (if take 1 t = ''+'' \<or> take 1 t = ''-'' then drop 1 t else t);
          hex = (take 2 u = ''0x'' \<or> take 2 u = ''0X'');
          R = (if hex then 16 else 10);
          ds = radix_digits R (if hex then drop 2 u else u)
      in if ds = [] then NaN
         else let n = number_for (of_nat (foldl (\<lambda>a d. R * a + d) 0 ds))
              in if neg then js_neg n else n)"

section \<open>The creation wizard: form state and validation\<close>

datatype CampaignType = individual | charity

datatype PriorityLevel = urgent | normal

datatype CampaignStatus = active | completed

datatype DocumentType =
    medical_bill | doctor_prescription | hospital_letter | id_proof
  | ngo_certificate | license | trust_deed | other

datatype Step = Step1 | Step2 | Step3 | Step4 | Step5

text \<open>A browser \<open>File\<close>: the code reads its name and sends it whole.\<close>

record File =
  name :: string
  content :: string

text \<open>
  The form state. \<open>campaignType\<close> is \<open>CampaignType | ''\<close>: \<open>None\<close> is the empty
  string of a type not yet chosen.
\<close>

record FormData =
  campaignType :: "CampaignType option"
  title :: string
  category :: string
  targetAmount :: string
  durationDays :: string
  description :: string
  imageUrl :: string
  impactPlan :: string
  beneficiaryName :: string
  phoneNumber :: string
  residentialAddress :: string
  organizationName :: string
  contactPersonName :: string
  contactPhoneNumber :: string
  officialAddress :: string
  documents :: "File list"
  documentTypes :: "DocumentType list"

text \<open>
  \<open>validateStep\<close> returns \<open>false\<close> after \<open>setError(message)\<close>, or \<open>true\<close> and leaves
  the error alone: \<open>Rejected message\<close> and \<open>Accepted\<close>.
\<close>

datatype verdict = Accepted | Rejected string

definition validateStep :: "FormData \<Rightarrow> Step \<Rightarrow> verdict" where
  "validateStep formData step =
     (case step of
        Step1 \<Rightarrow>
          if campaignType formData = None then Rejected ''Please select a campaign type''
          else if trim (FormData.title formData) = [] \<or> length (FormData.title formData) < 3
            then Rejected ''Title must be at least 3 characters''
          else if FormData.category formData = [] then Rejected ''Please select a category''
          else if targetAmount formData = [] \<or> js_le (parseFloat (targetAmount formData)) (Num 0)
            then Rejected ''Please enter a valid target amount''
          else if campaignType formData = Some individual then
            (if trim (beneficiaryName formData) = [] then Rejected ''Beneficiary name is required''
             else if trim (phoneNumber formData) = [] \<or> length (phoneNumber formData) < 10
                     \<or> 20 < length (phoneNumber formData)
               then Rejected ''Phone number must be between 10 and 20 characters''
             else if trim (residentialAddress formData) = []
                     \<or> length (residentialAddress formData) < 5
               then Rejected ''Residential address must be at least 5 characters''
             else Accepted)
          else
            (if trim (organizationName formData) = [] then Rejected ''Organization name is required''
             else if trim (contactPersonName formData) = []
               then Rejected ''Contact person name is required''
             else if trim (contactPhoneNumber formData) = []
                     \<or> length (contactPhoneNumber formData) < 10
                     \<or> 20 < length (contactPhoneNumber formData)
               then Rejected ''Phone number must be between 10 and 20 characters''
             else if trim (officialAddress formData) = [] \<or> length (officialAddress formData) < 5
               then Rejected ''Official address must be at least 5 characters''
             else Accepted)
      | Step2 \<Rightarrow>
          if trim (FormData.description formData) = [] \<or> length (FormData.description formData) < 10
            then Rejected ''Description must be at least 10 characters''
          else Accepted
      | Step3 \<Rightarrow> Accepted
      | Step4 \<Rightarrow> Accepted
      | Step5 \<Rightarrow> Accepted)"

text \<open>
  The wizard: the current step, the error line and the form. \<open>updateField\<close> is given
  as the function that changes the form; it clears the error. \<open>nextStep\<close> advances only
  when the current step validates.
\<close>

record wizard =
  currentStep :: Step
  error :: "string option"
  form :: FormData

fun next_of :: "Step \<Rightarrow> Step" where
  "next_of Step1 = Step2"
| "next_of Step2 = Step3"
| "next_of Step3 = Step4"
| "next_of Step4 = Step5"
| "next_of Step5 = Step5"

fun prev_of :: "Step \<Rightarrow> Step" where
  "prev_of Step1 = Step1"
| "prev_of Step2 = Step1"
| "prev_of Step3 = Step2"
| "prev_of Step4 = Step3"
| "prev_of Step5 = Step4"

definition updateField :: "(FormData \<Rightarrow> FormData) \<Rightarrow> wizard \<Rightarrow> wizard" where
  "updateField change w = w\<lparr>form := change (form w), error := None\<rparr>"

definition nextStep :: "wizard \<Rightarrow> wizard" where
  "nextStep w =
     (case validateStep (form w) (currentStep w) of
        Rejected message \<Rightarrow> w\<lparr>error := Some message\<rparr>
      | Accepted \<Rightarrow> w\<lparr>currentStep := next_of (currentStep w)\<rparr>)"

definition prevStep :: "wizard \<Rightarrow> wizard" where
  "prevStep w = w\<lparr>currentStep := prev_of (currentStep w), error := None\<rparr>"

subsection \<open>The ordered checks of the step "basic info"\<close>

text \<open>
  A list of checks, each with the message shown when it is violated; the outcome of
  running them in order and stopping at the first violated one.
\<close>

definition first_failure :: "(bool \<times> string) list \<Rightarrow> verdict" where
  "first_failure checks =
     (case find (\<lambda>(ok, message). \<not> ok) checks of
        None \<Rightarrow> Accepted
      | Some (ok, message) \<Rightarrow> Rejected message)"

fun js_positive :: "jsnum \<Rightarrow> bool" where
  "js_positive (Num v) = (0 < v)"
| "js_positive Infinity = True"
| "js_positive NaN = False"
| "js_positive NegInfinity = False"

text \<open>
  The checks in the words of the specification: lengths and non-emptiness of the raw
  field values, and a target amount that parses to a positive number.
\<close>

definition spec_basic_info_checks :: "FormData \<Rightarrow> (bool \<times> string) list" where
  "spec_basic_info_checks fd =
     [(campaignType fd \<noteq> None, ''Please select a campaign type''),
      (3 \<le> length (FormData.title fd), ''Title must be at least 3 characters''),
      (FormData.category fd \<noteq> [], ''Please select a category''),
      (js_positive (parseFloat (targetAmount fd)), ''Please enter a valid target amount'')]
     @ (case campaignType fd of
          None \<Rightarrow> []
        | Some individual \<Rightarrow>
            [(beneficiaryName fd \<noteq> [], ''Beneficiary name is required''),
             (10 \<le> length (phoneNumber fd) \<and> length (phoneNumber fd) \<le> 20,
              ''Phone number must be between 10 and 20 characters''),
             (5 \<le> length (residentialAddress fd),
              ''Residential address must be at least 5 characters'')]
        | Some charity \<Rightarrow>
            [(organizationName fd \<noteq> [], ''Organization name is required''),
             (contactPersonName fd \<noteq> [], ''Contact person name is required''),
             (10 \<le> length (contactPhoneNumber fd) \<and> length (contactPhoneNumber fd) \<le> 20,
              ''Phone number must be between 10 and 20 characters''),
             (5 \<le> length (officialAddress fd),
              ''Official address must be at least 5 characters'')])"

text \<open>
  The same list with what the code asks of the text fields: a title, a name, a phone
  number and an address must also hold a character that is not white space.
\<close>

definition not_blank :: "string \<Rightarrow> bool" where
  "not_blank s = (\<exists>c \<in> set s. \<not> is_space c)"

definition basic_info_checks :: "FormData \<Rightarrow> (bool \<times> string) list" where
  "basic_info_checks fd =
     [(campaignType fd \<noteq> None, ''Please select a campaign type''),
      (not_blank (FormData.title fd) \<and> 3 \<le> length (FormData.title fd),
       ''Title must be at least 3 characters''),
      (FormData.category fd \<noteq> [], ''Please select a category''),
      (js_positive (parseFloat (targetAmount fd)), ''Please enter a valid target amount'')]
     @ (case campaignType fd of
          None \<Rightarrow> []
        | Some individual \<Rightarrow>
            [(not_blank (beneficiaryName fd), ''Beneficiary name is required''),
             (not_blank (phoneNumber fd) \<and> 10 \<le> length (phoneNumber fd)
                \<and> length (phoneNumber fd) \<le> 20,
              ''Phone number must be between 10 and 20 characters''),
             (not_blank (residentialAddress fd) \<and> 5 \<le> length (residentialAddress fd),
              ''Residential address must be at least 5 characters'')]
        | Some charity \<Rightarrow>
            [(not_blank (organizationName fd), ''Organization name is required''),
             (not_blank (contactPersonName fd), ''Contact person name is required''),
             (not_blank (contactPhoneNumber fd) \<and> 10 \<le> length (contactPhoneNumber fd)
                \<and> length (contactPhoneNumber fd) \<le> 20,
              ''Phone number must be between 10 and 20 characters''),
             (not_blank (officialAddress fd) \<and> 5 \<le> length (officialAddress fd),
              ''Official address must be at least 5 characters'')])"

text \<open>
  Two form states: the individual campaign of the specification's scenario, and the same
  form with a title of three spaces.
\<close>

definition maria_form :: FormData where
  "maria_form =
     \<lparr>campaignType = Some individual, title = ''Help Maria'', category = ''Medical'',
      targetAmount = ''1000'', durationDays = ''30'',
      description = ''Surgery costs for Maria'', imageUrl = [], impactPlan = [],
      beneficiaryName = ''Maria Lopez'', phoneNumber = ''5551234567'',
      residentialAddress = ''123 Main St'', organizationName = [], contactPersonName = [],
      contactPhoneNumber = [], officialAddress = [], documents = [], documentTypes = []\<rparr>"

definition blank_title_form :: FormData where
  "blank_title_form = maria_form\<lparr>FormData.title := ''   ''\<rparr>"

text \<open>The same form with a target amount that is no number.\<close>

definition text_amount_form :: FormData where
  "text_amount_form = maria_form\<lparr>targetAmount := ''abc''\<rparr>"

section \<open>The API client and the local index\<close>

record CampaignDocument =
  ipfs_hash :: string
  document_type :: DocumentType
  filename :: string
  mime_type :: string
  uploaded_at :: "string option"

text \<open>An optional member of a request is an \<open>option\<close>: \<open>None\<close> is \<open>undefined\<close>.\<close>

record IndividualCampaignCreateRequest =
  title :: string
  description :: string
  target_amount :: jsnum
  duration_days :: jsnum
  category :: string
  priority :: "PriorityLevel option"
  image_url :: "string option"
  beneficiary_name :: string
  phone_number :: string
  residential_address :: string
  verification_notes :: "string option"
  documents :: "CampaignDocument list option"

record CharityCampaignCreateRequest =
  title :: string
  description :: string
  target_amount :: jsnum
  duration_days :: jsnum
  category :: string
  priority :: "PriorityLevel option"
  image_url :: "string option"
  organization_name :: string
  contact_person_name :: string
  contact_phone_number :: string
  official_address :: string
  verification_notes :: "string option"
  documents :: "CampaignDocument list option"

record CreateResponse =
  tx_hash :: string
  cid :: string
  status :: string

text \<open>
  \<open>MockCampaign\<close>, as it is held in local storage. The index is kept there as JSON
  text, so a record is what \<open>JSON.parse\<close> gives back: a number that was \<open>NaN\<close> or
  infinite when written is \<open>null\<close> (\<open>json_number\<close>), and a member that was
  \<open>undefined\<close> is absent; both are \<open>None\<close>. An instant (\<open>created_at\<close>, \<open>end_date\<close>)
  is an ISO-8601 string in the code; the model holds its time value in milliseconds, which
  \<open>new Date(s).getTime()\<close> gives back from the string \<open>toISOString\<close> wrote. The member
  \<open>id\<close> is \<open>id'\<close> here and \<open>_id\<close> is \<open>legacy_id\<close>.
\<close>

record MockCampaign =
  id' :: string
  legacy_id :: "string option"
  cid :: string
  campaign_type :: CampaignType
  title :: string
  description :: string
  target_amount :: "rat option"
  raised_amount :: rat
  duration_days :: "rat option"
  category :: string
  priority :: PriorityLevel
  status :: CampaignStatus
  image_url :: "string option"
  organization_name :: "string option"
  created_at :: int
  end_date :: "int option"
  blockchain_tx_hash :: "string option"
  on_chain_id :: "string option"
  documents_count :: "nat option"

fun json_number :: "jsnum \<Rightarrow> rat option" where
  "json_number (Num v) = Some v"
| "json_number NaN = None"
| "json_number Infinity = None"
| "json_number NegInfinity = None"

text \<open>
  The browser: whether \<open>window\<close> is defined, and the decoded value of the local storage
  key \<open>heartchain_campaigns\<close> (the empty list while the key is unset).
\<close>

record browser =
  has_window :: bool
  heartchain_campaigns :: "MockCampaign list"

text \<open>
  A decoded JSON value. Numbers are the whole numbers that a double holds exactly and
  prints in decimal; the members of an object are in the order of the text.
\<close>

datatype json =
    JNull
  | JBool bool
  | JNumber int
  | JString string
  | JArray "json list"
  | JObject "(string \<times> json) list"

text \<open>
  \<open>v.k\<close> on a decoded value other than \<open>null\<close>: the member of an object (the last one
  when the text repeats the key), \<open>undefined\<close> (\<open>None\<close>) when there is none and on
  every value that is not an object.
\<close>

fun member' :: "json \<Rightarrow> string \<Rightarrow> json option" where
  "member' (JObject ms) k = map_of (rev ms) k"
| "member' v k = None"

fun truthy :: "json \<Rightarrow> bool" where
  "truthy JNull = False"
| "truthy (JBool b) = b"
| "truthy (JNumber n) = (n \<noteq> 0)"
| "truthy (JString s) = (s \<noteq> [])"
| "truthy (JArray xs) = True"
| "truthy (JObject ms) = True"

text \<open>
  What a \<open>fetch\<close> leads to. The promise rejects (with the message of the error), or
  there is a response: not \<open>ok\<close>, with its status and body, or \<open>ok\<close> with a body that
  \<open>json()\<close> decodes or fails to decode (with the message of that error). The body of a
  failed response does not decode, or decodes to a JSON value; with the value comes the
  message of the error that the engine raises when a member of \<open>null\<close> is read or a
  value has no string.
\<close>

datatype error_body = Undecodable | Decoded json string

datatype 'a fetch_result =
    Rejects string
  | NotOk nat error_body
  | OkUndecodable string
  | OkJson 'a

datatype js_error = Error string

definition digit_char :: "nat \<Rightarrow> char" where
  "digit_char n = ''0123456789'' ! (n mod 10)"

fun show_nat :: "nat \<Rightarrow> string" where
  "show_nat n = (if n < 10 then [digit_char n] else show_nat (n div 10) @ [digit_char (n mod 10)])"

definition show_int :: "int \<Rightarrow> string" where
  "show_int n = (if n < 0 then ''-'' @ show_nat (nat (- n)) else show_nat (nat n))"

text \<open>
  The string that \<open>new Error(v)\<close> takes for its message from a value \<open>v\<close>. A string is
  itself; an array is its elements' strings joined by commas, \<open>null\<close> among them counting
  as empty; an object is \<open>[object Object]\<close>. An object with a member \<open>toString\<close> of
  its own has no string: the member is not a function, and the conversion raises an
  error (\<open>None\<close>).
\<close>

fun join :: "string list \<Rightarrow> string" where
  "join [] = []"
| "join [s] = s"
| "join (s # t # ss) = s @ '','' @ join (t # ss)"

fun to_string :: "json \<Rightarrow> string option" where
  "to_string JNull = Some ''null''"
| "to_string (JBool b) = Some (if b then ''true'' else ''false'')"
| "to_string (JNumber n) = Some (show_int n)"
| "to_string (JString s) = Some s"
| "to_string (JArray xs) =
     map_option join
       (those (map (\<lambda>x. if x = JNull then Some [] else to_string x) xs))"
| "to_string (JObject ms) =
     (if ''toString'' \<in> fst ` set ms then None else Some ''[object Object]'')"

text \<open>
  \<open>request\<close>, given what its fetch led to. On a response that is not \<open>ok\<close> it throws
  \<open>new Error(error.detail || `HTTP ${response.status}`)\<close>, where \<open>error\<close> is the
  decoded body, or \<open>{detail: 'An error occurred'}\<close> when the body does not decode.
  Reading the member of a body that is \<open>null\<close>, or a detail that has no string, raises
  an error of the engine instead, of the message that comes with the body.
\<close>

definition request :: "'a fetch_result \<Rightarrow> js_error + 'a" where
  "request response =
     (case response of
        Rejects m \<Rightarrow> Inl (Error m)
      | NotOk st body \<Rightarrow>
          (case body of
             Undecodable \<Rightarrow> Inl (Error ''An error occurred'')
           | Decoded v engine_message \<Rightarrow>
               if v = JNull then Inl (Error engine_message)
               else
                 (case member' v ''detail'' of
                    None \<Rightarrow> Inl (Error (''HTTP '' @ show_nat st))
                  | Some detail \<Rightarrow>
                      if truthy detail then
                        (case to_string detail of
                           None \<Rightarrow> Inl (Error engine_message)
                         | Some message \<Rightarrow> Inl (Error message))
                      else Inl (Error (''HTTP '' @ show_nat st))))
      | OkUndecodable m \<Rightarrow> Inl (Error m)
      | OkJson r \<Rightarrow> Inr r)"

definition saveToLocalIndex :: "browser \<Rightarrow> MockCampaign \<Rightarrow> browser" where
  "saveToLocalIndex b campaign =
     (if has_window b
      then b\<lparr>heartchain_campaigns := campaign # heartchain_campaigns b\<rparr>
      else b)"

text \<open>\<open>x || null\<close> on an optional string: the empty string is falsy too.\<close>

fun or_null :: "string option \<Rightarrow> string option" where
  "or_null None = None"
| "or_null (Some s) = (if s = [] then None else Some s)"

fun or_normal :: "PriorityLevel option \<Rightarrow> PriorityLevel" where
  "or_normal None = normal"
| "or_normal (Some p) = p"

text \<open>
  The two create operations take the answer of the network to their request and the
  clock reading \<open>now\<close> of \<open>new Date()\<close>, and return the result with the browser state.
\<close>

definition createIndividualCampaign ::
  "CreateResponse fetch_result \<Rightarrow> int \<Rightarrow> browser \<Rightarrow> IndividualCampaignCreateRequest
     \<Rightarrow> (js_error + CreateResponse) \<times> browser" where
  "createIndividualCampaign response now b data =
     (case request response of
        Inl e \<Rightarrow> (Inl e, b)
      | Inr res \<Rightarrow>
          (Inr res,
           saveToLocalIndex b
             \<lparr>id' = CreateResponse.cid res,
              legacy_id = None,
              cid = CreateResponse.cid res,
              campaign_type = individual,
              title = IndividualCampaignCreateRequest.title data,
              description = IndividualCampaignCreateRequest.description data,
              target_amount = json_number (IndividualCampaignCreateRequest.target_amount data),
              raised_amount = 0,
              duration_days = json_number (IndividualCampaignCreateRequest.duration_days data),
              category = IndividualCampaignCreateRequest.category data,
              priority = or_normal (IndividualCampaignCreateRequest.priority data),
              status = active,
              image_url = or_null (IndividualCampaignCreateRequest.image_url data),
              organization_name = None,
              created_at = now,
              end_date = None,
              blockchain_tx_hash = Some (tx_hash res),
              on_chain_id = None,
              documents_count = None\<rparr>))"

definition createCharityCampaign ::
  "CreateResponse fetch_result \<Rightarrow> int \<Rightarrow> browser \<Rightarrow> CharityCampaignCreateRequest
     \<Rightarrow> (js_error + CreateResponse) \<times> browser" where
  "createCharityCampaign response now b data =
     (case request response of
        Inl e \<Rightarrow> (Inl e, b)
      | Inr res \<Rightarrow>
          (Inr res,
           saveToLocalIndex b
             \<lparr>id' = CreateResponse.cid res,
              legacy_id = None,
              cid = CreateResponse.cid res,
              campaign_type = charity,
              title = CharityCampaignCreateRequest.title data,
              description = CharityCampaignCreateRequest.description data,
              target_amount = json_number (CharityCampaignCreateRequest.target_amount data),
              raised_amount = 0,
              duration_days = json_number (CharityCampaignCreateRequest.duration_days data),
              category = CharityCampaignCreateRequest.category data,
              priority = or_normal (CharityCampaignCreateRequest.priority data),
              status = active,
              image_url = or_null (CharityCampaignCreateRequest.image_url data),
              organization_name = Some (CharityCampaignCreateRequest.organization_name data),
              created_at = now,
              end_date = None,
              blockchain_tx_hash = Some (tx_hash res),
              on_chain_id = None,
              documents_count = None\<rparr>))"

text \<open>
  The read operations. \<open>params\<close> of \<open>getCampaigns\<close> holds the two members the code
  looks at; an absent or empty one does not filter.
\<close>

record list_params =
  param_campaign_type :: "CampaignType option"
  param_category :: "string option"

definition getCampaigns :: "browser \<Rightarrow> list_params option \<Rightarrow> MockCampaign list" where
  "getCampaigns b params =
     (if has_window b then
        (let campaigns = heartchain_campaigns b;
             campaigns =
               (case Option.bind params param_campaign_type of
                  None \<Rightarrow> campaigns
                | Some t \<Rightarrow> filter (\<lambda>c. campaign_type c = t) campaigns);
             campaigns =
               (case or_null (Option.bind params param_category) of
                  None \<Rightarrow> campaigns
                | Some g \<Rightarrow> filter (\<lambda>c. MockCampaign.category c = g) campaigns)
         in campaigns)
      else [])"

definition getCampaign :: "browser \<Rightarrow> string \<Rightarrow> MockCampaign option" where
  "getCampaign b i =
     (if has_window b then find (\<lambda>c. id' c = i) (heartchain_campaigns b) else None)"

definition uploadDocument :: "CampaignDocument fetch_result \<Rightarrow> js_error + CampaignDocument" where
  "uploadDocument response =
     (case response of
        Rejects m \<Rightarrow> Inl (Error m)
      | NotOk st body \<Rightarrow> Inl (Error ''Upload failed'')
      | OkUndecodable m \<Rightarrow> Inl (Error m)
      | OkJson d \<Rightarrow> Inr d)"

section \<open>Submission\<close>

text \<open>
  The network is an input: the answer to the \<open>i\<close>-th document upload of a submission
  and the answer to its create request. A submission returns the calls it issued, in
  order, what it left on the screen, and the browser state.
\<close>

record network =
  upload_response :: "nat \<Rightarrow> CampaignDocument fetch_result"
  create_response :: "CreateResponse fetch_result"

datatype api_call =
    UploadCall File DocumentType
  | IndividualCall IndividualCampaignCreateRequest
  | CharityCall CharityCampaignCreateRequest

fun is_create :: "api_call \<Rightarrow> bool" where
  "is_create (UploadCall file docType) = False"
| "is_create (IndividualCall payload) = True"
| "is_create (CharityCall payload) = True"

text \<open>
  \<open>Created cid url\<close>: \<open>setCreatedCampaignId(cid)\<close> and \<open>router.push(url)\<close>;
  \<open>Failed message\<close>: \<open>setError(message)\<close>.
\<close>

datatype outcome = Created string string | Failed string

record submission =
  calls :: "api_call list"
  result :: outcome
  browser_after :: browser

text \<open>\<open>formData.documentTypes[i] || 'other'\<close>: out of range the read is \<open>undefined\<close>.\<close>

definition document_type_at :: "DocumentType list \<Rightarrow> nat \<Rightarrow> DocumentType" where
  "document_type_at types i = (if i < length types then types ! i else other)"

text \<open>
  The upload loop from index \<open>i\<close>, with the documents uploaded and the calls issued so
  far. An upload that fails ends the loop with the error the handler throws.
\<close>

function upload_from ::
  "network \<Rightarrow> FormData \<Rightarrow> nat \<Rightarrow> CampaignDocument list \<Rightarrow> api_call list
     \<Rightarrow> api_call list \<times> (js_error + CampaignDocument list)" where
  "upload_from net formData i uploadedDocs issued =
     (if i < length (FormData.documents formData) then
        (let file = FormData.documents formData ! i;
             docType = document_type_at (documentTypes formData) i
         in case uploadDocument (upload_response net i) of
              Inl err \<Rightarrow>
                (issued @ [UploadCall file docType],
                 Inl (Error (''Failed to upload document: '' @ name file)))
            | Inr docRes \<Rightarrow>
                upload_from net formData (Suc i) (uploadedDocs @ [docRes])
                  (issued @ [UploadCall file docType]))
      else (issued, Inr uploadedDocs))"
  by pat_completeness auto
termination
  by (relation "measure (\<lambda>(net, formData, i, uploadedDocs, issued).
                  length (FormData.documents formData) - i)") auto

text \<open>The call that uploads the \<open>i\<close>-th document of the form.\<close>

definition upload_call :: "FormData \<Rightarrow> nat \<Rightarrow> api_call" where
  "upload_call formData i =
     UploadCall (FormData.documents formData ! i) (document_type_at (documentTypes formData) i)"

definition fullDescription :: "FormData \<Rightarrow> string" where
  "fullDescription formData =
     (if impactPlan formData \<noteq> []
      then FormData.description formData @ [CHR 0x0A, CHR 0x0A] @ ''---'' @ [CHR 0x0A, CHR 0x0A]
           @ ''**How Funds Will Be Used:**'' @ [CHR 0x0A] @ impactPlan formData
      else FormData.description formData)"

definition individual_payload ::
  "FormData \<Rightarrow> CampaignDocument list \<Rightarrow> IndividualCampaignCreateRequest" where
  "individual_payload formData uploadedDocs =
     \<lparr>IndividualCampaignCreateRequest.title = FormData.title formData,
      description = fullDescription formData,
      target_amount = parseFloat (targetAmount formData),
      duration_days = parseInt (durationDays formData),
      category = FormData.category formData,
      priority = Some normal,
      image_url = (if imageUrl formData = [] then None else Some (imageUrl formData)),
      beneficiary_name = beneficiaryName formData,
      phone_number = phoneNumber formData,
      residential_address = residentialAddress formData,
      verification_notes = None,
      documents = Some uploadedDocs\<rparr>"

definition charity_payload ::
  "FormData \<Rightarrow> CampaignDocument list \<Rightarrow> CharityCampaignCreateRequest" where
  "charity_payload formData uploadedDocs =
     \<lparr>CharityCampaignCreateRequest.title = FormData.title formData,
      description = fullDescription formData,
      target_amount = parseFloat (targetAmount formData),
      duration_days = parseInt (durationDays formData),
      category = FormData.category formData,
      priority = Some normal,
      image_url = (if imageUrl formData = [] then None else Some (imageUrl formData)),
      organization_name = organizationName formData,
      contact_person_name = contactPersonName formData,
      contact_phone_number = contactPhoneNumber formData,
      official_address = officialAddress formData,
      verification_notes = None,
      documents = Some uploadedDocs\<rparr>"

definition created_url :: "CreateResponse \<Rightarrow> string" where
  "created_url response =
     ''/campaigns/'' @ CreateResponse.cid response @ ''?created=true&tx='' @ tx_hash response"

definition finish ::
  "api_call list \<Rightarrow> (js_error + CreateResponse) \<times> browser \<Rightarrow> submission" where
  "finish issued answer =
     (case answer of
        (Inl (Error message), b) \<Rightarrow>
          \<lparr>calls = issued, result = Failed message, browser_after = b\<rparr>
      | (Inr response, b) \<Rightarrow>
          \<lparr>calls = issued,
           result = Created (CreateResponse.cid response) (created_url response),
           browser_after = b\<rparr>)"

definition handleSubmit :: "network \<Rightarrow> int \<Rightarrow> browser \<Rightarrow> FormData \<Rightarrow> submission" where
  "handleSubmit net now b formData =
     (case upload_from net formData 0 [] [] of
        (issued, Inl (Error message)) \<Rightarrow>
          \<lparr>calls = issued, result = Failed message, browser_after = b\<rparr>
      | (issued, Inr uploadedDocs) \<Rightarrow>
          if campaignType formData = Some individual then
            (let payload = individual_payload formData uploadedDocs
             in finish (issued @ [IndividualCall payload])
                  (createIndividualCampaign (create_response net) now b payload))
          else
            (let payload = charity_payload formData uploadedDocs
             in finish (issued @ [CharityCall payload])
                  (createCharityCampaign (create_response net) now b payload)))"

section \<open>The browse page: conversion, filters and ordering\<close>

text \<open>
  The type \<open>Campaign\<close> of the browse page is declared in \<open>data/mockData\<close>; the record
  has the members that \<open>apiToFrontendCampaign\<close> writes. \<open>createdAt\<close> is the time
  value of the date string, as \<open>created_at\<close> above. \<open>daysLeft\<close> is a whole number or
  \<open>NaN\<close>, which is \<open>None\<close>. The three lists are always written empty.
\<close>

record Campaign =
  id' :: string
  title :: string
  description :: string
  fullDescription' :: string
  category :: string
  image :: string
  goal :: "rat option"
  raised :: rat
  daysLeft :: "int option"
  contributors :: int
  creatorName :: string
  creatorAvatar :: string
  isVerified :: bool
  isHighPriority :: bool
  createdAt :: int
  updates :: "string list"
  impactBreakdown :: "string list"
  recentDonors :: "string list"

text \<open>
  \<open>toLowerCase\<close> on code units below 256: the letters A to Z and the Latin-1 capitals
  (all of \<open>0xC0\<close> to \<open>0xDE\<close> but the sign \<open>0xD7\<close>) move up by 32.
\<close>

definition lower_char :: "char \<Rightarrow> char" where
  "lower_char c =
     (let n = (of_char c :: nat) in
      if (65 \<le> n \<and> n \<le> 90) \<or> (192 \<le> n \<and> n \<le> 222 \<and> n \<noteq> 215) then char_of (n + 32) else c)"

definition toLowerCase :: "string \<Rightarrow> string" where
  "toLowerCase s = map lower_char s"

text \<open>\<open>s.replace(' ', '_')\<close> replaces the first space only.\<close>

fun replace_first_space :: "string \<Rightarrow> string" where
  "replace_first_space [] = []"
| "replace_first_space (c # s) = (if c = CHR '' '' then CHR ''_'' # s else c # replace_first_space s)"

text \<open>\<open>s.includes(q)\<close>: \<open>q\<close> occurs in \<open>s\<close> as a run of consecutive code units.\<close>

fun includes' :: "string \<Rightarrow> string \<Rightarrow> bool" where
  "includes' [] q = (q = [])"
| "includes' (c # s) q = (take (length q) (c # s) = q \<or> includes' s q)"

text \<open>
  A \<open>Date\<close> holds a time value or is an Invalid Date, whose \<open>getTime()\<close> is \<open>NaN\<close>;
  \<open>None\<close> is the Invalid Date. \<open>new Date(v)\<close> of a number is invalid when \<open>v\<close> is
  more than 8.64e15 milliseconds from the epoch, and drops the fraction of \<open>v\<close>
  (towards zero) otherwise. A date string that denotes an instant outside that range
  parses to an Invalid Date too.
\<close>

definition time_clip :: "rat \<Rightarrow> int option" where
  "time_clip v =
     (if \<bar>v\<bar> \<le> 8640000000000000 then Some (if 0 \<le> v then \<lfloor>v\<rfloor> else \<lceil>v\<rceil>) else None)"

text \<open>
  The end date of \<open>apiToFrontendCampaign\<close>: the explicit one, or the date of
  \<open>created_at\<close> plus \<open>duration_days * 86400000\<close>, where \<open>null\<close> counts as 0 and an
  invalid \<open>created_at\<close> makes the sum \<open>NaN\<close>. The sum is exact here; the doubles of the
  code give the same whenever product and sum are doubles, as they are for every whole
  number of days.
\<close>

definition endDate :: "MockCampaign \<Rightarrow> int option" where
  "endDate apiCampaign =
     (case end_date apiCampaign of
        Some e \<Rightarrow> time_clip (of_int e)
      | None \<Rightarrow>
          (case time_clip (of_int (created_at apiCampaign)) of
             None \<Rightarrow> None
           | Some t \<Rightarrow>
               time_clip (of_int t
                          + (case MockCampaign.duration_days apiCampaign of
                               None \<Rightarrow> 0 | Some d \<Rightarrow> d)
                            * 86400000)))"

definition apiToFrontendCampaign :: "int \<Rightarrow> MockCampaign \<Rightarrow> Campaign" where
  "apiToFrontendCampaign now apiCampaign =
     \<lparr>id' = MockCampaign.id' apiCampaign,
      title = MockCampaign.title apiCampaign,
      description = MockCampaign.description apiCampaign,
      fullDescription' = MockCampaign.description apiCampaign,
      category =
        (let g = replace_first_space (toLowerCase (MockCampaign.category apiCampaign))
         in if g = [] then ''community'' else g),
      image = (case or_null (MockCampaign.image_url apiCampaign) of
                 None \<Rightarrow> ''/campaigns/default.jpg'' | Some u \<Rightarrow> u),
      goal = MockCampaign.target_amount apiCampaign,
      raised = raised_amount apiCampaign,
      daysLeft =
        (case endDate apiCampaign of
           None \<Rightarrow> None
         | Some e \<Rightarrow> Some (max 0 \<lceil>of_int (e - now) / (1000 * 60 * 60 * 24 :: rat)\<rceil>)),
      contributors = \<lfloor>raised_amount apiCampaign / 50\<rfloor>,
      creatorName = (case or_null (MockCampaign.organization_name apiCampaign) of
                       None \<Rightarrow> ''Campaign Creator'' | Some n \<Rightarrow> n),
      creatorAvatar = ''/avatars/default.jpg'',
      isVerified = (MockCampaign.status apiCampaign = active),
      isHighPriority = (MockCampaign.priority apiCampaign = urgent),
      createdAt = created_at apiCampaign,
      updates = [],
      impactBreakdown = [],
      recentDonors = []\<rparr>"

text \<open>
  \<open>Array.prototype.sort\<close> with a comparator is stable. It reads the sign of what the
  comparator returns and takes \<open>NaN\<close> for \<open>+0\<close> (\<open>sort_value\<close>). With a consistent
  comparator its result is the one stable arrangement of the array in the comparator's
  order, and insertion from the right computes that arrangement: an element goes in
  front of the first element that it does not come after. Where the comparator is not
  consistent, as it can be among campaigns whose \<open>daysLeft\<close> is \<open>NaN\<close>, the standard
  leaves the order to the engine, and the model is the order of that insertion.
\<close>

fun sort_value :: "jsnum \<Rightarrow> rat" where
  "sort_value NaN = 0"
| "sort_value (Num v) = v"
| "sort_value Infinity = 1"
| "sort_value NegInfinity = - 1"

fun insert_sorted :: "('a \<Rightarrow> 'a \<Rightarrow> jsnum) \<Rightarrow> 'a \<Rightarrow> 'a list \<Rightarrow> 'a list" where
  "insert_sorted cmp x [] = [x]"
| "insert_sorted cmp x (y # ys) =
     (if sort_value (cmp x y) \<le> 0 then x # y # ys else y # insert_sorted cmp x ys)"

definition array_sort :: "('a \<Rightarrow> 'a \<Rightarrow> jsnum) \<Rightarrow> 'a list \<Rightarrow> 'a list" where
  "array_sort cmp xs = foldr (insert_sorted cmp) xs []"

text \<open>The sort keys; the constructors are capitalised to stay apart from the members.\<close>

datatype SortOption = Newest | Ending | Funded | Priority

text \<open>\<open>a.daysLeft - b.daysLeft\<close>: \<open>NaN\<close> as soon as one of the two is.\<close>

fun days_minus :: "int option \<Rightarrow> int option \<Rightarrow> jsnum" where
  "days_minus (Some x) (Some y) = Num (of_int (x - y))"
| "days_minus None d = NaN"
| "days_minus d None = NaN"

definition comparator :: "SortOption \<Rightarrow> Campaign \<Rightarrow> Campaign \<Rightarrow> jsnum" where
  "comparator sortBy a b =
     (case sortBy of
        Newest \<Rightarrow> Num (of_int (createdAt b - createdAt a))
      | Ending \<Rightarrow> days_minus (daysLeft a) (daysLeft b)
      | Funded \<Rightarrow> Num (raised b - raised a)
      | Priority \<Rightarrow>
          if isHighPriority a \<noteq> isHighPriority b
          then (if isHighPriority a then Num (- 1) else Num 1)
          else days_minus (daysLeft a) (daysLeft b))"

definition filteredCampaigns ::
  "Campaign list \<Rightarrow> string \<Rightarrow> string \<Rightarrow> SortOption \<Rightarrow> bool \<Rightarrow> Campaign list" where
  "filteredCampaigns campaigns searchQuery categoryFilter sortBy priorityOnly =
     (let result = campaigns;
          result =
            (if searchQuery \<noteq> [] then
               (let query = toLowerCase searchQuery
                in filter (\<lambda>c. includes' (toLowerCase (Campaign.title c)) query
                              \<or> includes' (toLowerCase (Campaign.description c)) query) result)
             else result);
          result =
            (if categoryFilter \<noteq> ''all''
             then filter (\<lambda>c. Campaign.category c = categoryFilter) result else result);
          result = (if priorityOnly then filter isHighPriority result else result)
      in array_sort (comparator sortBy) result)"

text \<open>
  What the three filters of \<open>filteredCampaigns\<close> keep: the campaigns matching the
  search text, the category and the high-priority switch.
\<close>

definition visible :: "string \<Rightarrow> string \<Rightarrow> bool \<Rightarrow> Campaign \<Rightarrow> bool" where
  "visible searchQuery categoryFilter priorityOnly c =
     ((searchQuery = []
        \<or> includes' (toLowerCase (Campaign.title c)) (toLowerCase searchQuery)
        \<or> includes' (toLowerCase (Campaign.description c)) (toLowerCase searchQuery))
      \<and> (categoryFilter = ''all'' \<or> Campaign.category c = categoryFilter)
      \<and> (priorityOnly \<longrightarrow> isHighPriority c))"




text \<open>
  The identity members of the two groups, and those a stored record holds: of the seven,
  \<open>MockCampaign\<close> declares \<open>organization_name\<close> alone. A group is populated when
  the record holds every member of it; the invariant of the specification asks for the
  group of the record's \<open>campaign_type\<close> and not the other.
\<close>

definition individual_group :: "string list" where
  "individual_group = [''beneficiary_name'', ''phone_number'', ''residential_address'']"

definition charity_group :: "string list" where
  "charity_group =
     [''organization_name'', ''contact_person_name'', ''contact_phone_number'',
      ''official_address'']"

definition identity_members :: "MockCampaign \<Rightarrow> string list" where
  "identity_members c =
     (case MockCampaign.organization_name c of None \<Rightarrow> [] | Some n \<Rightarrow> [''organization_name''])"

definition group_populated :: "string list \<Rightarrow> MockCampaign \<Rightarrow> bool" where
  "group_populated g c = list_all (\<lambda>m. m \<in> set (identity_members c)) g"

definition spec_identity_invariant :: "MockCampaign \<Rightarrow> bool" where
  "spec_identity_invariant c =
     (case campaign_type c of
        individual \<Rightarrow> group_populated individual_group c \<and> \<not> group_populated charity_group c
      | charity \<Rightarrow> group_populated charity_group c \<and> \<not> group_populated individual_group c)"

section \<open>Example values\<close>

definition empty_browser :: browser where
  "empty_browser = \<lparr>has_window = True, heartchain_campaigns = []\<rparr>"

definition maria_response :: CreateResponse where
  "maria_response = \<lparr>tx_hash = ''0xabc'', cid = ''QmMaria'', status = ''success''\<rparr>"

definition charity_form :: FormData where
  "charity_form =
     maria_form\<lparr>campaignType := Some charity, FormData.title := ''Clean Water'',
                organizationName := ''Water Trust'', contactPersonName := ''Ana Ruiz'',
                contactPhoneNumber := ''5559876543'', officialAddress := ''9 Mill Road''\<rparr>"

definition water_response :: CreateResponse where
  "water_response = \<lparr>tx_hash = ''0xdef'', cid = ''QmWater'', status = ''success''\<rparr>"

definition maria_campaign :: MockCampaign where
  "maria_campaign =
     \<lparr>MockCampaign.id' = ''QmMaria'', legacy_id = None, cid = ''QmMaria'',
      campaign_type = individual, title = ''Help Maria'',
      description = ''Surgery costs for Maria'', target_amount = Some 1000,
      raised_amount = 0, duration_days = Some 30, category = ''Medical'', priority = normal,
      status = active, image_url = None, organization_name = None,
      created_at = 1700000000000, end_date = None, blockchain_tx_hash = Some ''0xabc'',
      on_chain_id = None, documents_count = None\<rparr>"

definition water_campaign :: MockCampaign where
  "water_campaign =
     \<lparr>MockCampaign.id' = ''QmWater'', legacy_id = None, cid = ''QmWater'',
      campaign_type = charity, title = ''Clean Water'',
      description = ''Surgery costs for Maria'', target_amount = Some 1000,
      raised_amount = 0, duration_days = Some 30, category = ''Medical'', priority = normal,
      status = active, image_url = None, organization_name = Some ''Water Trust'',
      created_at = 1700000600000, end_date = None, blockchain_tx_hash = Some ''0xdef'',
      on_chain_id = None, documents_count = None\<rparr>"

definition three_documents_form :: FormData where
  "three_documents_form =
     maria_form\<lparr>FormData.documents :=
                  [\<lparr>name = ''bill.pdf'', content = ''b''\<rparr>,
                   \<lparr>name = ''letter.pdf'', content = ''l''\<rparr>,
                   \<lparr>name = ''passport.png'', content = ''p''\<rparr>],
                documentTypes := [medical_bill, hospital_letter]\<rparr>"

definition stored_document :: CampaignDocument where
  "stored_document =
     \<lparr>ipfs_hash = ''QmDoc'', document_type = medical_bill, filename = ''bill.pdf'',
      mime_type = ''application/pdf'', uploaded_at = None\<rparr>"

text \<open>A network on which the second upload of a submission is answered with status 500.\<close>

definition second_upload_fails :: network where
  "second_upload_fails =
     \<lparr>upload_response = (\<lambda>i. if i = 1 then NotOk 500 Undecodable else OkJson stored_document),
      create_response = OkJson maria_response\<rparr>"

definition all_uploads_succeed :: network where
  "all_uploads_succeed =
     \<lparr>upload_response = (\<lambda>i. OkJson stored_document),
      create_response = OkJson maria_response\<rparr>"

text \<open>A campaign of the browse page with the members the ordering reads.\<close>

definition sample :: "string \<Rightarrow> int \<Rightarrow> rat \<Rightarrow> int \<Rightarrow> bool \<Rightarrow> Campaign" where
  "sample i created funds days high =
     \<lparr>Campaign.id' = i, title = ''Campaign'', description = ''A campaign'',
      fullDescription' = ''A campaign'', category = ''medical'',
      image = ''/campaigns/default.jpg'', goal = Some 1000, raised = funds,
      daysLeft = Some days,
      contributors = 0, creatorName = ''Campaign Creator'',
      creatorAvatar = ''/avatars/default.jpg'', isVerified = True, isHighPriority = high,
      createdAt = created, updates = [], impactBreakdown = [], recentDonors = []\<rparr>"

text \<open>The form of the scenario with a duration of 400 days typed in.\<close>

definition long_duration_form :: FormData where
  "long_duration_form = maria_form\<lparr>durationDays := ''400''\<rparr>"





text \<open>
  The body of a validation error as FastAPI words it: \<open>detail\<close> is a list of objects.
  A network that answers the create request with it, under status 422.
\<close>

definition validation_error :: json where
  "validation_error =
     JObject
       [(''detail'',
         JArray
           [JObject
              [(''loc'', JArray [JString ''body'', JString ''duration_days'']),
               (''msg'', JString ''ensure this value is less than or equal to 365''),
               (''type'', JString ''value_error.number.not_le'')]])]"

definition backend_rejects :: network where
  "backend_rejects =
     \<lparr>upload_response = (\<lambda>i. OkJson stored_document),
      create_response =
        NotOk 422 (Decoded validation_error ''Cannot convert object to primitive value'')\<rparr>"

section \<open>Validation of the step "basic info"\<close>

lemma dropWhile_all: "(\<forall>x \<in> set (dropWhile P s). P x) \<longleftrightarrow> (\<forall>x \<in> set s. P x)"
  by (induction s) auto

lemma trim_empty_iff: "trim s = [] \<longleftrightarrow> \<not> not_blank s"
  by (simp add: trim_def not_blank_def dropWhile_eq_Nil_conv dropWhile_all)

lemma parseFloat_Nil: "parseFloat [] = NaN"
  by (simp add: parseFloat_def)

lemma js_le_zero: "n \<noteq> NaN \<Longrightarrow> js_le n (Num 0) \<longleftrightarrow> \<not> js_positive n"
  by (cases n) auto

lemma parseFloat_1000: "parseFloat ''1000'' = Num 1000"
  by (simp add: parseFloat_def str_unsigned_decimal_def is_space_def is_digit_def
      digits_value_def digit_value_def number_for_def pow10_def)

lemma first_failure_Accepted:
  "first_failure checks = Accepted \<longleftrightarrow> (\<forall>(ok, message) \<in> set checks. ok)"
proof -
  have "find (\<lambda>(ok, message). \<not> ok) checks = None \<longleftrightarrow> (\<forall>(ok, message) \<in> set checks. ok)"
    by (auto simp: find_None_iff)
  then show ?thesis
    by (auto simp: first_failure_def split: option.splits)
qed

lemma validateStep_first_failure:
  assumes "targetAmount fd \<noteq> [] \<longrightarrow> parseFloat (targetAmount fd) \<noteq> NaN"
  shows "validateStep fd Step1 = first_failure (basic_info_checks fd)"
proof -
  have amount: "(targetAmount fd = [] \<or> js_le (parseFloat (targetAmount fd)) (Num 0))
      \<longleftrightarrow> \<not> js_positive (parseFloat (targetAmount fd))"
    using assms js_le_zero[of "parseFloat (targetAmount fd)"] by (auto simp: parseFloat_Nil)
  show ?thesis
  proof (cases "campaignType fd")
    case None
    then show ?thesis
      by (simp add: validateStep_def first_failure_def basic_info_checks_def)
  next
    case (Some t)
    then show ?thesis
      by (cases t)
        (simp_all add: validateStep_def first_failure_def basic_info_checks_def
          trim_empty_iff amount)
  qed
qed

lemma nextStep_Step1:
  "currentStep w = Step1 \<Longrightarrow>
     nextStep w = (case validateStep (form w) Step1 of
                     Accepted \<Rightarrow> w\<lparr>currentStep := Step2\<rparr>
                   | Rejected message \<Rightarrow> w\<lparr>error := Some message\<rparr>)"
  by (simp add: nextStep_def split: verdict.splits)

text \<open>
  C1, as the code has it. For every form state whose target amount, when not empty,
  parses to a number: the step "basic info" fails with the message of the first violated
  check of \<open>basic_info_checks\<close>, taken in order (type selected; title with a character
  that is not white space and at least 3 long; category not empty; target amount parsing
  to a positive number; then the name, phone number and address checks of the variant,
  each text also asked to hold a character that is not white space), it succeeds exactly
  when every check passes, and the wizard then moves from step 1 to step 2, and
  otherwise stays and shows the message.
\<close>

theorem validateStep_basic_info:
  assumes "targetAmount fd \<noteq> [] \<longrightarrow> parseFloat (targetAmount fd) \<noteq> NaN"
  shows "validateStep fd Step1 = first_failure (basic_info_checks fd)
       \<and> (validateStep fd Step1 = Accepted \<longleftrightarrow> (\<forall>(ok, message) \<in> set (basic_info_checks fd). ok))
       \<and> (\<forall>w. form w = fd \<and> currentStep w = Step1 \<longrightarrow>
            nextStep w = (case first_failure (basic_info_checks fd) of
                            Accepted \<Rightarrow> w\<lparr>currentStep := Step2\<rparr>
                          | Rejected message \<Rightarrow> w\<lparr>error := Some message\<rparr>))"
  using validateStep_first_failure[OF assms]
  by (simp add: first_failure_Accepted nextStep_Step1)

theorem validateStep_basic_info_witness:
  "parseFloat (targetAmount maria_form) \<noteq> NaN
   \<and> validateStep maria_form Step1 = Accepted
   \<and> first_failure (basic_info_checks maria_form) = Accepted
   \<and> nextStep \<lparr>currentStep = Step1, error = None, form = maria_form\<rparr>
       = \<lparr>currentStep = Step2, error = None, form = maria_form\<rparr>
   \<and> first_failure (basic_info_checks blank_title_form)
       = Rejected ''Title must be at least 3 characters''
   \<and> nextStep \<lparr>currentStep = Step1, error = None, form = blank_title_form\<rparr>
       = \<lparr>currentStep = Step1, error = Some ''Title must be at least 3 characters'',
          form = blank_title_form\<rparr>"
proof -
  have amount: "parseFloat (targetAmount maria_form) = Num 1000"
    by (simp add: maria_form_def parseFloat_1000)
  have accepted: "validateStep maria_form Step1 = Accepted"
    by (simp add: validateStep_def maria_form_def parseFloat_1000 trim_def is_space_def)
  have hyp: "targetAmount maria_form \<noteq> [] \<longrightarrow> parseFloat (targetAmount maria_form) \<noteq> NaN"
    by (simp add: amount)
  have rejected: "validateStep blank_title_form Step1
      = Rejected ''Title must be at least 3 characters''"
    by (simp add: validateStep_def blank_title_form_def maria_form_def trim_def is_space_def)
  have hyp': "targetAmount blank_title_form \<noteq> []
      \<longrightarrow> parseFloat (targetAmount blank_title_form) \<noteq> NaN"
    by (simp add: blank_title_form_def maria_form_def parseFloat_1000)
  have a: "parseFloat (targetAmount maria_form) \<noteq> NaN
      \<and> validateStep maria_form Step1 = Accepted
      \<and> first_failure (basic_info_checks maria_form) = Accepted
      \<and> nextStep \<lparr>currentStep = Step1, error = None, form = maria_form\<rparr>
          = \<lparr>currentStep = Step2, error = None, form = maria_form\<rparr>"
    using validateStep_basic_info[OF hyp] accepted amount
    by (auto split: verdict.splits)
  have b: "first_failure (basic_info_checks blank_title_form)
        = Rejected ''Title must be at least 3 characters''
      \<and> nextStep \<lparr>currentStep = Step1, error = None, form = blank_title_form\<rparr>
          = \<lparr>currentStep = Step1, error = Some ''Title must be at least 3 characters'',
             form = blank_title_form\<rparr>"
    using validateStep_basic_info[OF hyp'] rejected
    by (auto split: verdict.splits)
  from a b show ?thesis
    by simp
qed

lemma parseFloat_abc: "parseFloat ''abc'' = NaN"
  by (simp add: parseFloat_def str_unsigned_decimal_def is_space_def is_digit_def)

text \<open>
  C1 as stated fails. A title of three spaces has length 3, so every check of the
  specification's list passes, and the code rejects it with the title message. And a
  target amount \<open>abc\<close> is no positive number, so the specification's amount check is
  violated, and the code accepts it: \<open>NaN <= 0\<close> is false.
\<close>

theorem validateStep_spec_checks_counterexample:
  "validateStep blank_title_form Step1 = Rejected ''Title must be at least 3 characters''
   \<and> first_failure (spec_basic_info_checks blank_title_form) = Accepted
   \<and> validateStep text_amount_form Step1 = Accepted
   \<and> first_failure (spec_basic_info_checks text_amount_form)
       = Rejected ''Please enter a valid target amount''"
  by (simp add: validateStep_def first_failure_def spec_basic_info_checks_def
      blank_title_form_def text_amount_form_def maria_form_def trim_def is_space_def
      parseFloat_1000 parseFloat_abc)

section \<open>The create operations and the local index\<close>

lemma request_Inr_iff: "request response = Inr res \<longleftrightarrow> response = OkJson res"
  by (auto simp: request_def split: fetch_result.splits error_body.splits option.splits)

lemma createIndividualCampaign_Inr_iff:
  "fst (createIndividualCampaign response now b data) = Inr res \<longleftrightarrow> response = OkJson res"
  using request_Inr_iff[of response res]
  by (auto simp: createIndividualCampaign_def split: sum.splits)

lemma createCharityCampaign_Inr_iff:
  "fst (createCharityCampaign response now b data) = Inr res \<longleftrightarrow> response = OkJson res"
  using request_Inr_iff[of response res]
  by (auto simp: createCharityCampaign_def split: sum.splits)

lemma request_OkJson: "request (OkJson res) = Inr res"
  by (simp add: request_def)

text \<open>
  C2. In the browser (\<open>window\<close> defined, so the local index exists), an individual or
  charity creation succeeds exactly when the backend answers with a decodable success
  response \<open>res\<close>, and then the local index is the old one with one record in
  front, whose \<open>id\<close> is the \<open>cid\<close> of \<open>res\<close>, whose \<open>raised_amount\<close> is 0,
  whose \<open>status\<close> is \<open>active\<close> and whose \<open>created_at\<close> is the clock reading at creation.
\<close>

theorem create_stores_campaign:
  assumes "has_window b"
  shows
    "(fst (createIndividualCampaign response now b idata) = Inr res \<longleftrightarrow> response = OkJson res)
     \<and> (fst (createCharityCampaign response now b cdata) = Inr res \<longleftrightarrow> response = OkJson res)
     \<and> (response = OkJson res \<longrightarrow>
          (\<exists>c. heartchain_campaigns (snd (createIndividualCampaign response now b idata))
                 = c # heartchain_campaigns b
               \<and> MockCampaign.id' c = CreateResponse.cid res \<and> raised_amount c = 0
               \<and> MockCampaign.status c = active \<and> created_at c = now
               \<and> campaign_type c = individual
               \<and> MockCampaign.title c = IndividualCampaignCreateRequest.title idata
               \<and> MockCampaign.category c = IndividualCampaignCreateRequest.category idata)
        \<and> (\<exists>c. heartchain_campaigns (snd (createCharityCampaign response now b cdata))
                 = c # heartchain_campaigns b
               \<and> MockCampaign.id' c = CreateResponse.cid res \<and> raised_amount c = 0
               \<and> MockCampaign.status c = active \<and> created_at c = now
               \<and> campaign_type c = charity
               \<and> MockCampaign.title c = CharityCampaignCreateRequest.title cdata
               \<and> MockCampaign.category c = CharityCampaignCreateRequest.category cdata))"
  using assms
  by (simp add: createIndividualCampaign_Inr_iff createCharityCampaign_Inr_iff)
     (simp add: createIndividualCampaign_def createCharityCampaign_def request_OkJson
        saveToLocalIndex_def)

theorem create_stores_campaign_witness:
  "has_window empty_browser
   \<and> fst (createIndividualCampaign (OkJson maria_response) 1700000000000 empty_browser
            (individual_payload maria_form [])) = Inr maria_response
   \<and> (\<exists>c. heartchain_campaigns
              (snd (createIndividualCampaign (OkJson maria_response) 1700000000000 empty_browser
                     (individual_payload maria_form []))) = [c]
          \<and> MockCampaign.id' c = ''QmMaria'' \<and> raised_amount c = 0
          \<and> MockCampaign.status c = active \<and> created_at c = 1700000000000)
   \<and> (\<exists>c. heartchain_campaigns
              (snd (createCharityCampaign (OkJson maria_response) 1700000000000 empty_browser
                     (charity_payload charity_form []))) = [c]
          \<and> MockCampaign.id' c = ''QmMaria'' \<and> raised_amount c = 0
          \<and> MockCampaign.status c = active \<and> created_at c = 1700000000000)"
proof -
  have w: "has_window empty_browser"
    by (simp add: empty_browser_def)
  have idx: "heartchain_campaigns empty_browser = []"
    by (simp add: empty_browser_def)
  have c: "CreateResponse.cid maria_response = ''QmMaria''"
    by (simp add: maria_response_def)
  from create_stores_campaign[OF w, of "OkJson maria_response" 1700000000000
      "individual_payload maria_form []" maria_response "charity_payload charity_form []"]
  show ?thesis
    unfolding idx c using w by blast
qed

lemma fold_save_index:
  "has_window b \<Longrightarrow>
     has_window (fold (\<lambda>x s. saveToLocalIndex s x) later b)
     \<and> heartchain_campaigns (fold (\<lambda>x s. saveToLocalIndex s x) later b)
         = rev later @ heartchain_campaigns b"
  by (induction later arbitrary: b) (simp_all add: saveToLocalIndex_def)

lemma find_append_none:
  "\<forall>x \<in> set xs. \<not> P x \<Longrightarrow> find P (xs @ ys) = find P ys"
  by (induction xs) auto

text \<open>
  C6. In the browser, a campaign saved to the local index is what \<open>getCampaign\<close>
  returns for its id; it stays so through later saves of campaigns with other ids, and
  through any later saves the id still retrieves a campaign of that id. An id that no
  record of the index has gives \<open>None\<close>. \<open>getCampaign\<close> returns the first record of
  the index, in its order, whose id is the one asked for.
\<close>

theorem getCampaign_roundtrip:
  assumes "has_window b"
  shows "getCampaign (saveToLocalIndex b c) (MockCampaign.id' c) = Some c
     \<and> (\<forall>later. MockCampaign.id' c \<notin> MockCampaign.id' ` set later \<longrightarrow>
          getCampaign (fold (\<lambda>x s. saveToLocalIndex s x) later (saveToLocalIndex b c))
            (MockCampaign.id' c) = Some c)
     \<and> (\<forall>later. \<exists>c'. getCampaign (fold (\<lambda>x s. saveToLocalIndex s x) later (saveToLocalIndex b c))
            (MockCampaign.id' c) = Some c' \<and> MockCampaign.id' c' = MockCampaign.id' c)
     \<and> (\<forall>i. i \<notin> MockCampaign.id' ` set (heartchain_campaigns b) \<longrightarrow> getCampaign b i = None)
     \<and> (\<forall>i x. getCampaign b i = Some x \<longleftrightarrow>
          (\<exists>before after. heartchain_campaigns b = before @ x # after \<and> MockCampaign.id' x = i
             \<and> (\<forall>y \<in> set before. MockCampaign.id' y \<noteq> i)))"
proof -
  let ?save = "\<lambda>x s. saveToLocalIndex s x"
  have w: "has_window (saveToLocalIndex b c)"
    and idx: "heartchain_campaigns (saveToLocalIndex b c) = c # heartchain_campaigns b"
    using assms by (simp_all add: saveToLocalIndex_def)
  have first: "getCampaign (saveToLocalIndex b c) (MockCampaign.id' c) = Some c"
    using w idx by (simp add: getCampaign_def)
  have later_idx: "has_window (fold ?save later (saveToLocalIndex b c))
      \<and> heartchain_campaigns (fold ?save later (saveToLocalIndex b c))
          = rev later @ c # heartchain_campaigns b" for later
    using fold_save_index[OF w, of later] idx by simp
  have kept: "getCampaign (fold ?save later (saveToLocalIndex b c)) (MockCampaign.id' c) = Some c"
    if "MockCampaign.id' c \<notin> MockCampaign.id' ` set later" for later
  proof -
    have "\<forall>x \<in> set (rev later). \<not> MockCampaign.id' x = MockCampaign.id' c"
      using that by (auto simp: image_iff)
    from find_append_none[OF this] later_idx[of later] show ?thesis
      by (simp add: getCampaign_def)
  qed
  have some: "\<exists>c'. getCampaign (fold ?save later (saveToLocalIndex b c)) (MockCampaign.id' c) = Some c'
      \<and> MockCampaign.id' c' = MockCampaign.id' c" for later
  proof -
    let ?xs = "rev later @ c # heartchain_campaigns b"
    have "find (\<lambda>x. MockCampaign.id' x = MockCampaign.id' c) ?xs \<noteq> None"
      by (auto simp: find_None_iff)
    then obtain c' where f: "find (\<lambda>x. MockCampaign.id' x = MockCampaign.id' c) ?xs = Some c'"
      by blast
    then have "MockCampaign.id' c' = MockCampaign.id' c"
      by (auto simp: find_Some_iff)
    with f later_idx[of later] show ?thesis
      by (simp add: getCampaign_def)
  qed
  have absent: "getCampaign b i = None" if "i \<notin> MockCampaign.id' ` set (heartchain_campaigns b)" for i
    using that by (auto simp: getCampaign_def find_None_iff)
  have scan: "getCampaign b i = Some x \<longleftrightarrow>
      (\<exists>before after. heartchain_campaigns b = before @ x # after \<and> MockCampaign.id' x = i
         \<and> (\<forall>y \<in> set before. MockCampaign.id' y \<noteq> i))" for i x
  proof
    assume "getCampaign b i = Some x"
    then have "find (\<lambda>c. MockCampaign.id' c = i) (heartchain_campaigns b) = Some x"
      using assms by (simp add: getCampaign_def)
    then obtain k where k: "k < length (heartchain_campaigns b)"
      "MockCampaign.id' (heartchain_campaigns b ! k) = i" "x = heartchain_campaigns b ! k"
      "\<forall>j<k. MockCampaign.id' (heartchain_campaigns b ! j) \<noteq> i"
      by (auto simp: find_Some_iff)
    let ?xs = "heartchain_campaigns b"
    have "?xs = take k ?xs @ x # drop (Suc k) ?xs"
      using k by (simp add: id_take_nth_drop)
    moreover have "\<forall>y \<in> set (take k ?xs). MockCampaign.id' y \<noteq> i"
      using k by (auto simp: in_set_conv_nth)
    ultimately show "\<exists>before after. ?xs = before @ x # after \<and> MockCampaign.id' x = i
         \<and> (\<forall>y \<in> set before. MockCampaign.id' y \<noteq> i)"
      using k by blast
  next
    assume "\<exists>before after. heartchain_campaigns b = before @ x # after \<and> MockCampaign.id' x = i
         \<and> (\<forall>y \<in> set before. MockCampaign.id' y \<noteq> i)"
    then obtain before after where h: "heartchain_campaigns b = before @ x # after"
      "MockCampaign.id' x = i" "\<forall>y \<in> set before. MockCampaign.id' y \<noteq> i"
      by blast
    have "find (\<lambda>c. MockCampaign.id' c = i) (before @ x # after) = Some x"
      using find_append_none[of before "\<lambda>c. MockCampaign.id' c = i" "x # after"] h by simp
    then show "getCampaign b i = Some x"
      using assms h by (simp add: getCampaign_def)
  qed
  from first kept some absent scan show ?thesis
    by blast
qed

theorem getCampaign_roundtrip_witness:
  "has_window empty_browser
   \<and> getCampaign (saveToLocalIndex empty_browser maria_campaign) ''QmMaria'' = Some maria_campaign
   \<and> getCampaign (fold (\<lambda>x s. saveToLocalIndex s x) [water_campaign]
                    (saveToLocalIndex empty_browser maria_campaign)) ''QmMaria''
       = Some maria_campaign
   \<and> getCampaign empty_browser ''QmMaria'' = None"
proof -
  have w: "has_window empty_browser"
    by (simp add: empty_browser_def)
  have i: "MockCampaign.id' maria_campaign = ''QmMaria''"
    by (simp add: maria_campaign_def)
  note t = getCampaign_roundtrip[OF w, of maria_campaign]
  have a: "getCampaign (saveToLocalIndex empty_browser maria_campaign) ''QmMaria'' = Some maria_campaign"
    using t by (simp add: i)
  have b: "getCampaign (fold (\<lambda>x s. saveToLocalIndex s x) [water_campaign]
                    (saveToLocalIndex empty_browser maria_campaign)) ''QmMaria''
       = Some maria_campaign"
    using t[THEN conjunct2, THEN conjunct1, rule_format, of "[water_campaign]"]
    by (simp add: i water_campaign_def)
  have c: "getCampaign empty_browser ''QmMaria'' = None"
    using t[THEN conjunct2, THEN conjunct2, THEN conjunct2, THEN conjunct1, rule_format,
        of "''QmMaria''"]
    by (simp add: empty_browser_def)
  from w a b c show ?thesis
    by simp
qed

section \<open>Submission: the upload loop\<close>

declare upload_from.simps [simp del]

lemma upload_from_ok:
  "i < length (FormData.documents fd) \<Longrightarrow> upload_response net i = OkJson d \<Longrightarrow>
     upload_from net fd i docs issued
       = upload_from net fd (Suc i) (docs @ [d]) (issued @ [upload_call fd i])"
  by (simp add: upload_from.simps[of net fd i docs issued] uploadDocument_def upload_call_def
      Let_def)

lemma upload_from_failure:
  "i < length (FormData.documents fd) \<Longrightarrow> \<forall>d. upload_response net i \<noteq> OkJson d \<Longrightarrow>
     upload_from net fd i docs issued
       = (issued @ [upload_call fd i],
          Inl (Error (''Failed to upload document: '' @ name (FormData.documents fd ! i))))"
  by (simp add: upload_from.simps[of net fd i docs issued] uploadDocument_def upload_call_def
      Let_def split: fetch_result.splits)

lemma upload_from_end:
  "length (FormData.documents fd) \<le> i \<Longrightarrow> upload_from net fd i docs issued = (issued, Inr docs)"
  by (simp add: upload_from.simps[of net fd i docs issued])

lemma upload_from_fails_at:
  assumes "k < length (FormData.documents fd)" and "i \<le> k"
    and "\<forall>j. i \<le> j \<and> j < k \<longrightarrow> (\<exists>d. upload_response net j = OkJson d)"
    and "\<forall>d. upload_response net k \<noteq> OkJson d"
  shows "upload_from net fd i docs issued
       = (issued @ map (upload_call fd) [i..<Suc k],
          Inl (Error (''Failed to upload document: '' @ name (FormData.documents fd ! k))))"
  using assms
proof (induction "k - i" arbitrary: i docs issued)
  case 0
  then have "i = k" by simp
  with 0 upload_from_failure[of k fd net docs issued] show ?case
    by simp
next
  case (Suc m)
  then have lt: "i < k" by simp
  with Suc.prems obtain d where d: "upload_response net i = OkJson d"
    by blast
  have i: "i < length (FormData.documents fd)"
    using lt Suc.prems by simp
  have "upload_from net fd (Suc i) (docs @ [d]) (issued @ [upload_call fd i])
       = ((issued @ [upload_call fd i]) @ map (upload_call fd) [Suc i..<Suc k],
          Inl (Error (''Failed to upload document: '' @ name (FormData.documents fd ! k))))"
    using Suc.hyps Suc.prems lt by (intro Suc.hyps(1)) auto
  moreover have "[i..<Suc k] = i # [Suc i..<Suc k]"
    using lt by (simp add: upt_conv_Cons)
  ultimately show ?case
    using upload_from_ok[OF i d] by simp
qed

lemma upload_from_all_ok:
  assumes "\<forall>j. i \<le> j \<and> j < length (FormData.documents fd) \<longrightarrow> (\<exists>d. upload_response net j = OkJson d)"
  shows "\<exists>ds. upload_from net fd i docs issued
       = (issued @ map (upload_call fd) [i..<length (FormData.documents fd)], Inr (docs @ ds))
       \<and> length ds = length (FormData.documents fd) - i
       \<and> (\<forall>j < length ds. upload_response net (i + j) = OkJson (ds ! j))"
  using assms
proof (induction "length (FormData.documents fd) - i" arbitrary: i docs issued)
  case 0
  then have "length (FormData.documents fd) \<le> i" by simp
  then show ?case
    by (simp add: upload_from_end)
next
  case (Suc m)
  then have i: "i < length (FormData.documents fd)" by simp
  with Suc.prems obtain d where d: "upload_response net i = OkJson d"
    by blast
  have "\<exists>ds. upload_from net fd (Suc i) (docs @ [d]) (issued @ [upload_call fd i])
       = ((issued @ [upload_call fd i]) @ map (upload_call fd) [Suc i..<length (FormData.documents fd)],
          Inr ((docs @ [d]) @ ds))
       \<and> length ds = length (FormData.documents fd) - Suc i
       \<and> (\<forall>j < length ds. upload_response net (Suc i + j) = OkJson (ds ! j))"
    using Suc.hyps Suc.prems by (intro Suc.hyps(1)) auto
  then obtain ds where ds:
    "upload_from net fd (Suc i) (docs @ [d]) (issued @ [upload_call fd i])
       = ((issued @ [upload_call fd i]) @ map (upload_call fd) [Suc i..<length (FormData.documents fd)],
          Inr ((docs @ [d]) @ ds))"
    "length ds = length (FormData.documents fd) - Suc i"
    "\<forall>j < length ds. upload_response net (Suc i + j) = OkJson (ds ! j)"
    by blast
  have u: "[i..<length (FormData.documents fd)] = i # [Suc i..<length (FormData.documents fd)]"
    using i by (simp add: upt_conv_Cons)
  have nth: "\<forall>j < length (d # ds). upload_response net (i + j) = OkJson ((d # ds) ! j)"
  proof (intro allI impI)
    fix j assume "j < length (d # ds)"
    then show "upload_response net (i + j) = OkJson ((d # ds) ! j)"
      using d ds(3) by (cases j) auto
  qed
  show ?case
    using upload_from_ok[OF i d] ds(1,2) u nth i
    by (intro exI[of _ "d # ds"]) simp
qed


lemma calls_finish: "calls (finish issued answer) = issued"
  by (cases answer) (auto simp: finish_def split: sum.splits js_error.splits)

text \<open>
  C3. The uploads of a submission go out one at a time, in the order of the form's
  documents. When the upload of document \<open>k\<close> is the first that is not answered with a
  decoded success, the calls issued are the uploads of documents 0 to \<open>k\<close> and nothing
  else (no later upload, no create request), the error names that document, and the
  browser state, the local index with it, is unchanged. When every upload succeeds, the
  calls are all the uploads in order followed by one create request.
\<close>

theorem upload_failure_aborts_submission:
  "(k < length (FormData.documents fd)
      \<and> (\<forall>j<k. \<exists>d. upload_response net j = OkJson d)
      \<and> (\<forall>d. upload_response net k \<noteq> OkJson d)
    \<longrightarrow> calls (handleSubmit net now b fd) = map (upload_call fd) [0..<Suc k]
        \<and> result (handleSubmit net now b fd)
            = Failed (''Failed to upload document: '' @ name (FormData.documents fd ! k))
        \<and> browser_after (handleSubmit net now b fd) = b)
   \<and> ((\<forall>j < length (FormData.documents fd). \<exists>d. upload_response net j = OkJson d)
    \<longrightarrow> (\<exists>create. calls (handleSubmit net now b fd)
                    = map (upload_call fd) [0..<length (FormData.documents fd)] @ [create]
                  \<and> is_create create))"
proof (intro conjI impI)
  assume h: "k < length (FormData.documents fd)
      \<and> (\<forall>j<k. \<exists>d. upload_response net j = OkJson d)
      \<and> (\<forall>d. upload_response net k \<noteq> OkJson d)"
  then have "upload_from net fd 0 [] []
       = ([] @ map (upload_call fd) [0..<Suc k],
          Inl (Error (''Failed to upload document: '' @ name (FormData.documents fd ! k))))"
    by (intro upload_from_fails_at) auto
  then have u: "upload_from net fd 0 [] []
       = (map (upload_call fd) [0..<Suc k],
          Inl (Error (''Failed to upload document: '' @ name (FormData.documents fd ! k))))"
    by simp
  show "calls (handleSubmit net now b fd) = map (upload_call fd) [0..<Suc k]"
    by (simp add: handleSubmit_def u)
  show "result (handleSubmit net now b fd)
            = Failed (''Failed to upload document: '' @ name (FormData.documents fd ! k))"
    by (simp add: handleSubmit_def u)
  show "browser_after (handleSubmit net now b fd) = b"
    by (simp add: handleSubmit_def u)
next
  assume "\<forall>j < length (FormData.documents fd). \<exists>d. upload_response net j = OkJson d"
  then have "\<forall>j. 0 \<le> j \<and> j < length (FormData.documents fd)
       \<longrightarrow> (\<exists>d. upload_response net j = OkJson d)"
    by simp
  from upload_from_all_ok[OF this, of "[]" "[]"]
  obtain ds where u: "upload_from net fd 0 [] []
       = (map (upload_call fd) [0..<length (FormData.documents fd)], Inr ds)"
    by auto
  show "\<exists>create. calls (handleSubmit net now b fd)
                    = map (upload_call fd) [0..<length (FormData.documents fd)] @ [create]
                  \<and> is_create create"
  proof (cases "campaignType fd = Some individual")
    case True
    then show ?thesis
      by (intro exI[of _ "IndividualCall (individual_payload fd ds)"])
         (simp add: handleSubmit_def u calls_finish Let_def)
  next
    case False
    then show ?thesis
      by (intro exI[of _ "CharityCall (charity_payload fd ds)"])
         (simp add: handleSubmit_def u calls_finish Let_def)
  qed
qed

lemma upt_0_2: "[0..<Suc 1] = [0, 1]"
  by (simp add: upt_rec)

lemma upt_0_3: "[0..<3] = [0, 1, 2]"
  by (simp add: upt_rec)

theorem upload_failure_aborts_submission_witness:
  "calls (handleSubmit second_upload_fails 1700000000000 empty_browser three_documents_form)
       = [UploadCall \<lparr>name = ''bill.pdf'', content = ''b''\<rparr> medical_bill,
          UploadCall \<lparr>name = ''letter.pdf'', content = ''l''\<rparr> hospital_letter]
   \<and> result (handleSubmit second_upload_fails 1700000000000 empty_browser three_documents_form)
       = Failed ''Failed to upload document: letter.pdf''
   \<and> browser_after (handleSubmit second_upload_fails 1700000000000 empty_browser
         three_documents_form) = empty_browser
   \<and> (\<exists>create. calls (handleSubmit all_uploads_succeed 1700000000000 empty_browser
                        three_documents_form)
          = [UploadCall \<lparr>name = ''bill.pdf'', content = ''b''\<rparr> medical_bill,
             UploadCall \<lparr>name = ''letter.pdf'', content = ''l''\<rparr> hospital_letter,
             UploadCall \<lparr>name = ''passport.png'', content = ''p''\<rparr> other, create]
        \<and> is_create create)"
proof -
  have docs: "FormData.documents three_documents_form
       = [\<lparr>name = ''bill.pdf'', content = ''b''\<rparr>, \<lparr>name = ''letter.pdf'', content = ''l''\<rparr>,
          \<lparr>name = ''passport.png'', content = ''p''\<rparr>]"
    and types: "documentTypes three_documents_form = [medical_bill, hospital_letter]"
    by (simp_all add: three_documents_form_def maria_form_def)
  have c0: "upload_call three_documents_form 0
       = UploadCall \<lparr>name = ''bill.pdf'', content = ''b''\<rparr> medical_bill"
    and c1: "upload_call three_documents_form (Suc 0)
       = UploadCall \<lparr>name = ''letter.pdf'', content = ''l''\<rparr> hospital_letter"
    and c2: "upload_call three_documents_form (Suc (Suc 0))
       = UploadCall \<lparr>name = ''passport.png'', content = ''p''\<rparr> other"
    by (simp_all add: upload_call_def docs types document_type_at_def)
  have fails: "1 < length (FormData.documents three_documents_form)
      \<and> (\<forall>j<1. \<exists>d. upload_response second_upload_fails j = OkJson d)
      \<and> (\<forall>d. upload_response second_upload_fails 1 \<noteq> OkJson d)"
    by (simp add: docs second_upload_fails_def)
  have succeed: "\<forall>j < length (FormData.documents three_documents_form).
      \<exists>d. upload_response all_uploads_succeed j = OkJson d"
    by (simp add: all_uploads_succeed_def)
  from upload_failure_aborts_submission[of 1 three_documents_form second_upload_fails
      1700000000000 empty_browser, THEN conjunct1, THEN mp, OF fails]
  have a: "calls (handleSubmit second_upload_fails 1700000000000 empty_browser three_documents_form)
       = [UploadCall \<lparr>name = ''bill.pdf'', content = ''b''\<rparr> medical_bill,
          UploadCall \<lparr>name = ''letter.pdf'', content = ''l''\<rparr> hospital_letter]"
    and b: "result (handleSubmit second_upload_fails 1700000000000 empty_browser three_documents_form)
       = Failed ''Failed to upload document: letter.pdf''"
    and c: "browser_after (handleSubmit second_upload_fails 1700000000000 empty_browser
         three_documents_form) = empty_browser"
    by (simp_all add: upt_0_2 c0 c1 docs)
  from upload_failure_aborts_submission[of 1 three_documents_form all_uploads_succeed
      1700000000000 empty_browser, THEN conjunct2, THEN mp, OF succeed]
  have d: "\<exists>create. calls (handleSubmit all_uploads_succeed 1700000000000 empty_browser
                        three_documents_form)
          = [UploadCall \<lparr>name = ''bill.pdf'', content = ''b''\<rparr> medical_bill,
             UploadCall \<lparr>name = ''letter.pdf'', content = ''l''\<rparr> hospital_letter,
             UploadCall \<lparr>name = ''passport.png'', content = ''p''\<rparr> other, create]
        \<and> is_create create"
    by (simp add: docs upt_0_3 c0 c1 c2)
  from a b c d show ?thesis
    by simp
qed

section \<open>The create operations: failure\<close>

text \<open>
  Every answer to the create request other than a decoded success makes the create
  operation fail and leaves the browser state, the local index with it, as it was. The
  error carries the body's \<open>detail\<close> when that is a text, \<open>An error occurred\<close> when
  the body does not decode, and \<open>HTTP\<close> with the status when the decoded body has no
  \<open>detail\<close>.
\<close>

lemma request_failure:
  "(\<forall>res. response \<noteq> OkJson res) \<Longrightarrow> \<exists>m. request response = Inl (Error m)"
  by (cases response)
    (auto simp: request_def split: error_body.splits option.splits)

lemma create_individual_error:
  "request response = Inl e \<Longrightarrow> createIndividualCampaign response now b data = (Inl e, b)"
  by (simp add: createIndividualCampaign_def)

lemma create_charity_error:
  "request response = Inl e \<Longrightarrow> createCharityCampaign response now b data = (Inl e, b)"
  by (simp add: createCharityCampaign_def)

lemma request_text_detail:
  "t \<noteq> [] \<Longrightarrow> map_of (rev ms) ''detail'' = Some (JString t) \<Longrightarrow>
     request (NotOk st (Decoded (JObject ms) m)) = Inl (Error t)"
  by (simp add: request_def)

lemma request_no_detail:
  "map_of (rev ms) ''detail'' = None \<Longrightarrow>
     request (NotOk st (Decoded (JObject ms) m)) = Inl (Error (''HTTP '' @ show_nat st))"
  by (simp add: request_def)

lemma request_undecodable:
  "request (NotOk st Undecodable) = Inl (Error ''An error occurred'')"
  by (simp add: request_def)

lemma create_failure_leaves_index:
  "(\<forall>res. response \<noteq> OkJson res) \<Longrightarrow>
     (\<exists>m. createIndividualCampaign response now b idata = (Inl (Error m), b))
     \<and> (\<exists>m. createCharityCampaign response now b cdata = (Inl (Error m), b))"
  using request_failure[of response] create_individual_error create_charity_error
  by blast

lemma validation_error_message:
  "request (NotOk 422 (Decoded validation_error m)) = Inl (Error ''[object Object]'')"
  by (simp add: request_def validation_error_def)

lemma long_upload: "upload_from net long_duration_form 0 [] [] = ([], Inr [])"
  by (simp add: upload_from_end long_duration_form_def maria_form_def)

text \<open>
  C7 fails on the code for a failure whose \<open>detail\<close> is not a text. \<open>request\<close>
  hands \<open>error.detail\<close> to \<open>new Error\<close> as it is, and the backend's validation errors
  carry a list of objects there: the form of the scenario with 400 days typed in, rejected
  with status 422 for its duration, fails with the message \<open>[object Object]\<close>, which
  is neither the backend's detail text nor a generic message. The local index is left as
  it was, as the claim has it.
\<close>

theorem structured_detail_is_lost:
  "createIndividualCampaign
       (NotOk 422 (Decoded validation_error ''Cannot convert object to primitive value''))
       1700000000000 empty_browser (individual_payload long_duration_form [])
     = (Inl (Error ''[object Object]''), empty_browser)
   \<and> createCharityCampaign
       (NotOk 422 (Decoded validation_error ''Cannot convert object to primitive value''))
       1700000000000 empty_browser (charity_payload charity_form [])
     = (Inl (Error ''[object Object]''), empty_browser)
   \<and> result (handleSubmit backend_rejects 1700000000000 empty_browser long_duration_form)
     = Failed ''[object Object]''
   \<and> browser_after (handleSubmit backend_rejects 1700000000000 empty_browser long_duration_form)
     = empty_browser"
proof -
  have ct: "campaignType long_duration_form = Some individual"
    by (simp add: long_duration_form_def maria_form_def)
  have cr: "create_response backend_rejects
      = NotOk 422 (Decoded validation_error ''Cannot convert object to primitive value'')"
    by (simp add: backend_rejects_def)
  have a: "createIndividualCampaign
       (NotOk 422 (Decoded validation_error ''Cannot convert object to primitive value''))
       1700000000000 empty_browser (individual_payload long_duration_form [])
     = (Inl (Error ''[object Object]''), empty_browser)"
    by (rule create_individual_error) (rule validation_error_message)
  have b: "createCharityCampaign
       (NotOk 422 (Decoded validation_error ''Cannot convert object to primitive value''))
       1700000000000 empty_browser (charity_payload charity_form [])
     = (Inl (Error ''[object Object]''), empty_browser)"
    by (rule create_charity_error) (rule validation_error_message)
  have c: "handleSubmit backend_rejects 1700000000000 empty_browser long_duration_form
      = \<lparr>calls = [IndividualCall (individual_payload long_duration_form [])],
         result = Failed ''[object Object]'', browser_after = empty_browser\<rparr>"
    by (simp add: handleSubmit_def long_upload ct cr a finish_def Let_def)
  from a b c show ?thesis
    by simp
qed


section \<open>The browse page: ordering\<close>

lemma set_insert_sorted: "set (insert_sorted cmp x xs) = insert x (set xs)"
  by (induction xs) auto

lemma mset_insert_sorted: "mset (insert_sorted cmp x xs) = add_mset x (mset xs)"
  by (induction xs) auto

lemma mset_array_sort: "mset (array_sort cmp xs) = mset xs"
  by (induction xs) (simp_all add: array_sort_def mset_insert_sorted)


lemma array_sort_Cons: "array_sort cmp (x # xs) = insert_sorted cmp x (array_sort cmp xs)"
  by (simp add: array_sort_def)

text \<open>
  The arrangement is that of the library's stable sort by a key, where the comparator
  compares a key.
\<close>

lemma insert_sorted_insort_key:
  assumes "\<And>b. b \<in> set xs \<Longrightarrow> sort_value (cmp x b) \<le> 0 \<longleftrightarrow> key x \<le> key b"
  shows "insert_sorted cmp x xs = insort_key key x xs"
  using assms by (induction xs) simp_all

lemma array_sort_sort_key:
  assumes "\<And>a b. a \<in> set xs \<Longrightarrow> b \<in> set xs \<Longrightarrow> sort_value (cmp a b) \<le> 0 \<longleftrightarrow> key a \<le> key b"
  shows "array_sort cmp xs = sort_key key xs"
  using assms
proof (induction xs)
  case Nil
  then show ?case by (simp add: array_sort_def)
next
  case (Cons x xs)
  then have "array_sort cmp xs = sort_key key xs"
    by simp
  moreover have "insert_sorted cmp x (sort_key key xs) = insort_key key x (sort_key key xs)"
    by (rule insert_sorted_insort_key) (simp add: Cons.prems)
  ultimately show ?case
    by (simp add: array_sort_Cons)
qed

lemma array_sort_by_keys:
  "array_sort (comparator Newest) xs = sort_key (\<lambda>c. - createdAt c) xs"
  "array_sort (comparator Funded) xs = sort_key (\<lambda>c. - raised c) xs"
  "\<forall>c \<in> set xs. daysLeft c \<noteq> None \<Longrightarrow>
     array_sort (comparator Ending) xs = sort_key (\<lambda>c. the (daysLeft c)) xs"
  "\<forall>c \<in> set xs. daysLeft c \<noteq> None \<Longrightarrow>
     array_sort (comparator Priority) xs
       = sort_key (\<lambda>c. (if isHighPriority c then 0 else 1 :: nat, the (daysLeft c))) xs"
proof -
  show "array_sort (comparator Newest) xs = sort_key (\<lambda>c. - createdAt c) xs"
    by (rule array_sort_sort_key) (simp add: comparator_def)
  show "array_sort (comparator Funded) xs = sort_key (\<lambda>c. - raised c) xs"
    by (rule array_sort_sort_key) (simp add: comparator_def)
  show "array_sort (comparator Ending) xs = sort_key (\<lambda>c. the (daysLeft c)) xs"
    if "\<forall>c \<in> set xs. daysLeft c \<noteq> None"
  proof (rule array_sort_sort_key)
    fix a b assume "a \<in> set xs" "b \<in> set xs"
    with that obtain x y where "daysLeft a = Some x" "daysLeft b = Some y"
      by (meson not_Some_eq)
    then show "sort_value (comparator Ending a b) \<le> 0 \<longleftrightarrow> the (daysLeft a) \<le> the (daysLeft b)"
      by (simp add: comparator_def)
  qed
  show "array_sort (comparator Priority) xs
       = sort_key (\<lambda>c. (if isHighPriority c then 0 else 1 :: nat, the (daysLeft c))) xs"
    if "\<forall>c \<in> set xs. daysLeft c \<noteq> None"
  proof (rule array_sort_sort_key)
    fix a b assume "a \<in> set xs" "b \<in> set xs"
    with that obtain x y where "daysLeft a = Some x" "daysLeft b = Some y"
      by (meson not_Some_eq)
    then show "sort_value (comparator Priority a b) \<le> 0
      \<longleftrightarrow> (if isHighPriority a then 0 else 1 :: nat, the (daysLeft a))
          \<le> (if isHighPriority b then 0 else 1 :: nat, the (daysLeft b))"
      by (auto simp: comparator_def less_eq_prod_def)
  qed
qed




lemma filteredCampaigns_visible:
  "filteredCampaigns cs q cat sortBy p = array_sort (comparator sortBy) (filter (visible q cat p) cs)"
proof -
  have "filter (visible q cat p) cs
      = filter (\<lambda>c. p \<longrightarrow> isHighPriority c)
          (filter (\<lambda>c. cat = ''all'' \<or> Campaign.category c = cat)
            (filter (\<lambda>c. q = [] \<or> includes' (toLowerCase (Campaign.title c)) (toLowerCase q)
                           \<or> includes' (toLowerCase (Campaign.description c)) (toLowerCase q)) cs))"
    by (auto simp: visible_def intro: filter_cong)
  then show ?thesis
    by (simp add: filteredCampaigns_def Let_def)
qed




lemma priority_tier_le:
  "isHighPriority a \<noteq> isHighPriority b \<Longrightarrow>
     sort_value (comparator Priority a b) \<le> 0 \<longleftrightarrow> isHighPriority a"
  by (simp add: comparator_def)



text \<open>The tiers of the priority ordering stay apart whatever the days are.\<close>

lemma tiers_insert_sorted:
  assumes "sorted_wrt (\<lambda>a b. isHighPriority b \<longrightarrow> isHighPriority a) xs"
  shows "sorted_wrt (\<lambda>a b. isHighPriority b \<longrightarrow> isHighPriority a)
           (insert_sorted (comparator Priority) x xs)"
  using assms
proof (induction xs)
  case Nil
  then show ?case by simp
next
  case (Cons y ys)
  show ?case
  proof (cases "sort_value (comparator Priority x y) \<le> 0")
    case True
    have "isHighPriority z \<longrightarrow> isHighPriority x" if "z \<in> set (y # ys)" for z
    proof
      assume z: "isHighPriority z"
      with that Cons.prems have y: "isHighPriority y"
        by auto
      show "isHighPriority x"
      proof (rule ccontr)
        assume "\<not> isHighPriority x"
        with y True priority_tier_le[of x y] show False
          by simp
      qed
    qed
    with True Cons.prems show ?thesis
      by simp
  next
    case False
    have "isHighPriority x \<longrightarrow> isHighPriority y"
    proof
      assume x: "isHighPriority x"
      show "isHighPriority y"
      proof (rule ccontr)
        assume "\<not> isHighPriority y"
        with x False priority_tier_le[of x y] show False
          by simp
      qed
    qed
    with False Cons show ?thesis
      by (simp add: set_insert_sorted)
  qed
qed

lemma sorted_tiers:
  "sorted_wrt (\<lambda>a b. isHighPriority b \<longrightarrow> isHighPriority a) (array_sort (comparator Priority) xs)"
  by (induction xs) (simp_all add: array_sort_def tiers_insert_sorted)













section \<open>What the wizard stores\<close>

lemma parseInt_400: "parseInt ''400'' = Num 400"
  by (simp add: parseInt_def radix_digits_def hex_value_def is_space_def number_for_def)

lemma parseInt_30: "parseInt ''30'' = Num 30"
  by (simp add: parseInt_def radix_digits_def hex_value_def is_space_def number_for_def)

lemma browser_after_finish: "browser_after (finish issued (r, b)) = b"
  by (cases r) (auto simp: finish_def split: js_error.splits)

lemma maria_stored:
  "createIndividualCampaign (OkJson maria_response) 1700000000000 empty_browser
     (individual_payload maria_form [])
   = (Inr maria_response, empty_browser\<lparr>heartchain_campaigns := [maria_campaign]\<rparr>)"
  by (simp add: createIndividualCampaign_def request_OkJson saveToLocalIndex_def
      empty_browser_def maria_response_def individual_payload_def maria_form_def
      fullDescription_def maria_campaign_def parseFloat_1000 parseInt_30)

text \<open>
  C8 fails on the code: no step of the wizard looks at the duration. The form of the
  scenario with 400 days typed in passes every step, and its submission stores a campaign
  of 400 days.
\<close>

theorem duration_400_is_stored:
  "validateStep long_duration_form Step1 = Accepted
   \<and> validateStep long_duration_form Step2 = Accepted
   \<and> validateStep long_duration_form Step3 = Accepted
   \<and> validateStep long_duration_form Step4 = Accepted
   \<and> validateStep long_duration_form Step5 = Accepted
   \<and> heartchain_campaigns
         (browser_after (handleSubmit all_uploads_succeed 1700000000000 empty_browser
            long_duration_form))
       = [maria_campaign\<lparr>MockCampaign.duration_days := Some 400\<rparr>]"
proof -
  have steps: "validateStep long_duration_form s = Accepted" for s
    by (cases s)
      (simp_all add: validateStep_def long_duration_form_def maria_form_def parseFloat_1000
        trim_def is_space_def)
  have u: "upload_from all_uploads_succeed long_duration_form 0 [] [] = ([], Inr [])"
    by (simp add: upload_from_end long_duration_form_def maria_form_def)
  have "createIndividualCampaign (OkJson maria_response) 1700000000000 empty_browser
     (individual_payload long_duration_form [])
    = (Inr maria_response,
       empty_browser\<lparr>heartchain_campaigns := [maria_campaign\<lparr>MockCampaign.duration_days := Some 400\<rparr>]\<rparr>)"
    by (simp add: createIndividualCampaign_def request_OkJson saveToLocalIndex_def
      empty_browser_def maria_response_def individual_payload_def maria_form_def
      long_duration_form_def fullDescription_def maria_campaign_def parseFloat_1000 parseInt_400)
  moreover have "campaignType long_duration_form = Some individual"
    and "create_response all_uploads_succeed = OkJson maria_response"
    by (simp_all add: long_duration_form_def maria_form_def all_uploads_succeed_def)
  ultimately have "heartchain_campaigns
         (browser_after (handleSubmit all_uploads_succeed 1700000000000 empty_browser
            long_duration_form))
       = [maria_campaign\<lparr>MockCampaign.duration_days := Some 400\<rparr>]"
    by (simp add: handleSubmit_def u browser_after_finish Let_def)
  with steps show ?thesis
    by simp
qed

lemma create_individual_index:
  "createIndividualCampaign response now b data = (r, b') \<Longrightarrow>
     heartchain_campaigns b' = heartchain_campaigns b
     \<or> (\<exists>c. heartchain_campaigns b' = c # heartchain_campaigns b
            \<and> campaign_type c = individual
            \<and> MockCampaign.organization_name c = None
            \<and> MockCampaign.priority c = or_normal (IndividualCampaignCreateRequest.priority data))"
  by (auto simp: createIndividualCampaign_def saveToLocalIndex_def split: sum.splits if_splits)

lemma create_charity_index:
  "createCharityCampaign response now b data = (r, b') \<Longrightarrow>
     heartchain_campaigns b' = heartchain_campaigns b
     \<or> (\<exists>c. heartchain_campaigns b' = c # heartchain_campaigns b
            \<and> campaign_type c = charity
            \<and> MockCampaign.organization_name c
                = Some (CharityCampaignCreateRequest.organization_name data)
            \<and> MockCampaign.priority c = or_normal (CharityCampaignCreateRequest.priority data))"
  by (auto simp: createCharityCampaign_def saveToLocalIndex_def split: sum.splits if_splits)

lemma handleSubmit_index:
  "heartchain_campaigns (browser_after (handleSubmit net now b fd)) = heartchain_campaigns b
   \<or> (\<exists>c. heartchain_campaigns (browser_after (handleSubmit net now b fd))
              = c # heartchain_campaigns b
          \<and> MockCampaign.priority c = normal
          \<and> campaign_type c = (if campaignType fd = Some individual then individual else charity))"
proof -
  obtain issued r where u: "upload_from net fd 0 [] [] = (issued, r)"
    by (cases "upload_from net fd 0 [] []")
  show ?thesis
  proof (cases r)
    case (Inl e)
    then show ?thesis
      by (cases e) (simp add: handleSubmit_def u)
  next
    case (Inr ds)
    show ?thesis
    proof (cases "campaignType fd = Some individual")
      case True
      obtain a b' where c: "createIndividualCampaign (create_response net) now b
          (individual_payload fd ds) = (a, b')"
        by (cases "createIndividualCampaign (create_response net) now b (individual_payload fd ds)")
      have "IndividualCampaignCreateRequest.priority (individual_payload fd ds) = Some normal"
        by (simp add: individual_payload_def)
      with create_individual_index[OF c] True show ?thesis
        by (auto simp: handleSubmit_def u Inr c Let_def browser_after_finish)
    next
      case False
      obtain a b' where c: "createCharityCampaign (create_response net) now b
          (charity_payload fd ds) = (a, b')"
        by (cases "createCharityCampaign (create_response net) now b (charity_payload fd ds)")
      have "CharityCampaignCreateRequest.priority (charity_payload fd ds) = Some normal"
        by (simp add: charity_payload_def)
      with create_charity_index[OF c] False show ?thesis
        by (auto simp: handleSubmit_def u Inr c Let_def browser_after_finish)
    qed
  qed
qed

lemma normal_not_high: "MockCampaign.priority c = normal \<Longrightarrow> \<not> isHighPriority (apiToFrontendCampaign t c)"
  by (simp add: apiToFrontendCampaign_def)

lemma priorityOnly_keeps_high:
  "x \<in> set (filteredCampaigns cs q cat sortBy True) \<Longrightarrow> isHighPriority x"
proof -
  assume "x \<in> set (filteredCampaigns cs q cat sortBy True)"
  then have "x \<in># mset (filteredCampaigns cs q cat sortBy True)"
    by simp
  then have "x \<in> set (filter (visible q cat True) cs)"
    by (simp add: filteredCampaigns_visible mset_array_sort)
  then show ?thesis
    by (simp add: visible_def)
qed

lemma priority_sort_tiers:
  assumes "i < j" and "j < length (filteredCampaigns cs q cat Priority False)"
    and "\<not> isHighPriority (filteredCampaigns cs q cat Priority False ! i)"
  shows "\<not> isHighPriority (filteredCampaigns cs q cat Priority False ! j)"
proof -
  let ?r = "filteredCampaigns cs q cat Priority False"
  have "sorted_wrt (\<lambda>a b. isHighPriority b \<longrightarrow> isHighPriority a) ?r"
    by (simp add: filteredCampaigns_visible sorted_tiers)
  with assms have "isHighPriority (?r ! j) \<longrightarrow> isHighPriority (?r ! i)"
    by (auto simp: sorted_wrt_iff_nth_less)
  with assms show ?thesis
    by simp
qed

lemma water_stored:
  "createCharityCampaign (OkJson water_response) 1700000600000 empty_browser
     (charity_payload charity_form [])
   = (Inr water_response, empty_browser\<lparr>heartchain_campaigns := [water_campaign]\<rparr>)"
  by (simp add: createCharityCampaign_def request_OkJson saveToLocalIndex_def
      empty_browser_def water_response_def charity_payload_def charity_form_def maria_form_def
      fullDescription_def water_campaign_def parseFloat_1000 parseInt_30)

text \<open>
  C9 as stated fails: the record stored for the individual campaign of the scenario holds
  no identity member at all, so neither group is populated; the record stored for a
  charity campaign holds \<open>organization_name\<close> and not the rest of its group.
\<close>

theorem stored_identity_counterexample:
  "heartchain_campaigns
       (snd (createIndividualCampaign (OkJson maria_response) 1700000000000 empty_browser
               (individual_payload maria_form []))) = [maria_campaign]
   \<and> campaign_type maria_campaign = individual
   \<and> \<not> group_populated individual_group maria_campaign
   \<and> \<not> group_populated charity_group maria_campaign
   \<and> \<not> spec_identity_invariant maria_campaign
   \<and> heartchain_campaigns
       (snd (createCharityCampaign (OkJson water_response) 1700000600000 empty_browser
               (charity_payload charity_form []))) = [water_campaign]
   \<and> campaign_type water_campaign = charity
   \<and> \<not> group_populated charity_group water_campaign
   \<and> \<not> spec_identity_invariant water_campaign"
  by (simp add: maria_stored water_stored)
     (simp add: maria_campaign_def water_campaign_def spec_identity_invariant_def
       group_populated_def individual_group_def charity_group_def identity_members_def)

text \<open>
  C9, as the code has it. A create operation leaves the records already in the index as
  they are and adds at most one record in front: \<open>createIndividualCampaign\<close> one of type
  \<open>individual\<close> that holds no identity member, \<open>createCharityCampaign\<close> one of type
  \<open>charity\<close> that holds \<open>organization_name\<close>, as sent, and no other. The request of a
  submission carries one identity group: the individual one, read from the form, when
  the form's type is individual, and the charity one otherwise.
\<close>

theorem identity_fields_of_created_records:
  "(\<exists>added. heartchain_campaigns (snd (createIndividualCampaign response now b idata))
               = added @ heartchain_campaigns b
          \<and> length added \<le> 1
          \<and> list_all (\<lambda>c. campaign_type c = individual \<and> identity_members c = []) added)
   \<and> (\<exists>added. heartchain_campaigns (snd (createCharityCampaign response now b cdata))
               = added @ heartchain_campaigns b
          \<and> length added \<le> 1
          \<and> list_all (\<lambda>c. campaign_type c = charity
                          \<and> MockCampaign.organization_name c
                              = Some (CharityCampaignCreateRequest.organization_name cdata)
                          \<and> identity_members c = [''organization_name'']) added)
   \<and> ((\<forall>j < length (FormData.documents fd). \<exists>d. upload_response net j = OkJson d) \<longrightarrow>
        (\<exists>ds. last (calls (handleSubmit net now b fd))
                = (if campaignType fd = Some individual
                   then IndividualCall (individual_payload fd ds)
                   else CharityCall (charity_payload fd ds))))
   \<and> beneficiary_name (individual_payload fd ds) = beneficiaryName fd
   \<and> phone_number (individual_payload fd ds) = phoneNumber fd
   \<and> residential_address (individual_payload fd ds) = residentialAddress fd
   \<and> CharityCampaignCreateRequest.organization_name (charity_payload fd ds) = organizationName fd
   \<and> contact_person_name (charity_payload fd ds) = contactPersonName fd
   \<and> contact_phone_number (charity_payload fd ds) = contactPhoneNumber fd
   \<and> official_address (charity_payload fd ds) = officialAddress fd"
proof -
  obtain r1 b1 where c1: "createIndividualCampaign response now b idata = (r1, b1)"
    by (cases "createIndividualCampaign response now b idata")
  have i: "\<exists>added. heartchain_campaigns (snd (createIndividualCampaign response now b idata))
               = added @ heartchain_campaigns b
          \<and> length added \<le> 1
          \<and> list_all (\<lambda>c. campaign_type c = individual \<and> identity_members c = []) added"
    using create_individual_index[OF c1]
  proof
    assume "heartchain_campaigns b1 = heartchain_campaigns b"
    then show ?thesis
      by (intro exI[of _ "[]"]) (simp add: c1)
  next
    assume "\<exists>c. heartchain_campaigns b1 = c # heartchain_campaigns b
            \<and> campaign_type c = individual
            \<and> MockCampaign.organization_name c = None
            \<and> MockCampaign.priority c = or_normal (IndividualCampaignCreateRequest.priority idata)"
    then obtain c where "heartchain_campaigns b1 = c # heartchain_campaigns b"
      "campaign_type c = individual" "MockCampaign.organization_name c = None"
      by blast
    then show ?thesis
      by (intro exI[of _ "[c]"]) (simp add: c1 identity_members_def)
  qed
  obtain r2 b2 where c2: "createCharityCampaign response now b cdata = (r2, b2)"
    by (cases "createCharityCampaign response now b cdata")
  have c: "\<exists>added. heartchain_campaigns (snd (createCharityCampaign response now b cdata))
               = added @ heartchain_campaigns b
          \<and> length added \<le> 1
          \<and> list_all (\<lambda>c. campaign_type c = charity
                          \<and> MockCampaign.organization_name c
                              = Some (CharityCampaignCreateRequest.organization_name cdata)
                          \<and> identity_members c = [''organization_name'']) added"
    using create_charity_index[OF c2]
  proof
    assume "heartchain_campaigns b2 = heartchain_campaigns b"
    then show ?thesis
      by (intro exI[of _ "[]"]) (simp add: c2)
  next
    assume "\<exists>c. heartchain_campaigns b2 = c # heartchain_campaigns b
            \<and> campaign_type c = charity
            \<and> MockCampaign.organization_name c
                = Some (CharityCampaignCreateRequest.organization_name cdata)
            \<and> MockCampaign.priority c = or_normal (CharityCampaignCreateRequest.priority cdata)"
    then obtain c where "heartchain_campaigns b2 = c # heartchain_campaigns b"
      "campaign_type c = charity"
      "MockCampaign.organization_name c = Some (CharityCampaignCreateRequest.organization_name cdata)"
      by blast
    then show ?thesis
      by (intro exI[of _ "[c]"]) (simp add: c2 identity_members_def)
  qed
  have p: "\<exists>ds. last (calls (handleSubmit net now b fd))
                = (if campaignType fd = Some individual
                   then IndividualCall (individual_payload fd ds)
                   else CharityCall (charity_payload fd ds))"
    if "\<forall>j < length (FormData.documents fd). \<exists>d. upload_response net j = OkJson d"
  proof -
    from that have "\<forall>j. 0 \<le> j \<and> j < length (FormData.documents fd)
       \<longrightarrow> (\<exists>d. upload_response net j = OkJson d)"
      by simp
    from upload_from_all_ok[OF this, of "[]" "[]"]
    obtain ds where u: "upload_from net fd 0 [] []
       = (map (upload_call fd) [0..<length (FormData.documents fd)], Inr ds)"
      by auto
    show ?thesis
      by (intro exI[of _ ds]) (simp add: handleSubmit_def u calls_finish Let_def)
  qed
  from i c p show ?thesis
    by (simp add: individual_payload_def charity_payload_def)
qed


theorem identity_fields_of_created_records_witness:
  "campaign_type maria_campaign = individual
   \<and> identity_members maria_campaign = []
   \<and> (\<exists>ds. last (calls (handleSubmit all_uploads_succeed 1700000000000 empty_browser maria_form))
             = IndividualCall (individual_payload maria_form ds))
   \<and> beneficiary_name (individual_payload maria_form []) = ''Maria Lopez''
   \<and> CharityCampaignCreateRequest.organization_name (charity_payload charity_form [])
       = ''Water Trust''"
proof -
  note t = identity_fields_of_created_records[of "OkJson maria_response" 1700000000000
      empty_browser "individual_payload maria_form []" "charity_payload charity_form []"
      maria_form all_uploads_succeed "[]"]
  have idx: "heartchain_campaigns empty_browser = []"
    by (simp add: empty_browser_def)
  from t have "\<exists>added. [maria_campaign] = added
          \<and> length added \<le> 1
          \<and> list_all (\<lambda>c. campaign_type c = individual \<and> identity_members c = []) added"
    by (simp add: maria_stored idx)
  then have a: "campaign_type maria_campaign = individual \<and> identity_members maria_campaign = []"
    by auto
  have docs: "\<forall>j < length (FormData.documents maria_form).
      \<exists>d. upload_response all_uploads_succeed j = OkJson d"
    by (simp add: all_uploads_succeed_def)
  have ct: "campaignType maria_form = Some individual"
    by (simp add: maria_form_def)
  from t docs ct have b: "\<exists>ds. last (calls (handleSubmit all_uploads_succeed 1700000000000
        empty_browser maria_form)) = IndividualCall (individual_payload maria_form ds)"
    by simp
  have "beneficiaryName maria_form = ''Maria Lopez''"
    and "organizationName charity_form = ''Water Trust''"
    by (simp_all add: maria_form_def charity_form_def)
  with t have c: "beneficiary_name (individual_payload maria_form []) = ''Maria Lopez''
      \<and> CharityCampaignCreateRequest.organization_name (charity_payload charity_form [])
          = ''Water Trust''"
    by (simp add: charity_payload_def)
  from a b c show ?thesis
    by simp
qed

lemma default_priority_individual:
  "has_window b \<Longrightarrow>
     \<exists>c. heartchain_campaigns
            (snd (createIndividualCampaign (OkJson res) now b
                    (idata\<lparr>IndividualCampaignCreateRequest.priority := None\<rparr>)))
          = c # heartchain_campaigns b \<and> MockCampaign.priority c = normal"
  by (simp add: createIndividualCampaign_def request_OkJson saveToLocalIndex_def)

lemma default_priority_charity:
  "has_window b \<Longrightarrow>
     \<exists>c. heartchain_campaigns
            (snd (createCharityCampaign (OkJson res) now b
                    (cdata\<lparr>CharityCampaignCreateRequest.priority := None\<rparr>)))
          = c # heartchain_campaigns b \<and> MockCampaign.priority c = normal"
  by (simp add: createCharityCampaign_def request_OkJson saveToLocalIndex_def)

text \<open>
  C10. The payloads of the wizard carry the priority \<open>normal\<close>, and a create operation
  given no priority stores \<open>normal\<close>. So a submission either leaves the index as it was
  or puts one record in front whose priority is \<open>normal\<close>; on the browse page that
  campaign is not high-priority, the high-priority-only filter never keeps it, and under
  the "priority" ordering no high-priority campaign comes after it.
\<close>

theorem wizard_campaigns_are_normal:
  "IndividualCampaignCreateRequest.priority (individual_payload fd ds) = Some normal
   \<and> CharityCampaignCreateRequest.priority (charity_payload fd ds) = Some normal
   \<and> (has_window b \<longrightarrow>
        (\<exists>c. heartchain_campaigns
                (snd (createIndividualCampaign (OkJson res) now b
                        (idata\<lparr>IndividualCampaignCreateRequest.priority := None\<rparr>)))
              = c # heartchain_campaigns b \<and> MockCampaign.priority c = normal)
        \<and> (\<exists>c. heartchain_campaigns
                (snd (createCharityCampaign (OkJson res) now b
                        (cdata\<lparr>CharityCampaignCreateRequest.priority := None\<rparr>)))
              = c # heartchain_campaigns b \<and> MockCampaign.priority c = normal))
   \<and> (heartchain_campaigns (browser_after (handleSubmit net now b fd)) = heartchain_campaigns b
       \<or> (\<exists>c. heartchain_campaigns (browser_after (handleSubmit net now b fd))
                  = c # heartchain_campaigns b
              \<and> MockCampaign.priority c = normal
              \<and> \<not> isHighPriority (apiToFrontendCampaign t c)
              \<and> apiToFrontendCampaign t c \<notin> set (filteredCampaigns cs q cat sortBy True)
              \<and> (\<forall>i j. i < j \<and> j < length (filteredCampaigns cs q cat Priority False)
                       \<and> filteredCampaigns cs q cat Priority False ! i = apiToFrontendCampaign t c
                     \<longrightarrow> \<not> isHighPriority (filteredCampaigns cs q cat Priority False ! j))))"
proof -
  have tiers: "\<forall>i j. i < j \<and> j < length (filteredCampaigns cs q cat Priority False)
                       \<and> filteredCampaigns cs q cat Priority False ! i = apiToFrontendCampaign t c
                     \<longrightarrow> \<not> isHighPriority (filteredCampaigns cs q cat Priority False ! j)"
    if "MockCampaign.priority c = normal" for c
    using priority_sort_tiers[of _ _ cs q cat] normal_not_high[OF that, of t] by auto
  have stored: "heartchain_campaigns (browser_after (handleSubmit net now b fd)) = heartchain_campaigns b
       \<or> (\<exists>c. heartchain_campaigns (browser_after (handleSubmit net now b fd))
                  = c # heartchain_campaigns b
              \<and> MockCampaign.priority c = normal
              \<and> \<not> isHighPriority (apiToFrontendCampaign t c)
              \<and> apiToFrontendCampaign t c \<notin> set (filteredCampaigns cs q cat sortBy True)
              \<and> (\<forall>i j. i < j \<and> j < length (filteredCampaigns cs q cat Priority False)
                       \<and> filteredCampaigns cs q cat Priority False ! i = apiToFrontendCampaign t c
                     \<longrightarrow> \<not> isHighPriority (filteredCampaigns cs q cat Priority False ! j)))"
    using handleSubmit_index[of net now b fd]
  proof
    assume "heartchain_campaigns (browser_after (handleSubmit net now b fd)) = heartchain_campaigns b"
    then show ?thesis by (rule disjI1)
  next
    assume "\<exists>c. heartchain_campaigns (browser_after (handleSubmit net now b fd))
              = c # heartchain_campaigns b
          \<and> MockCampaign.priority c = normal
          \<and> campaign_type c = (if campaignType fd = Some individual then individual else charity)"
    then obtain c where c: "heartchain_campaigns (browser_after (handleSubmit net now b fd))
              = c # heartchain_campaigns b" "MockCampaign.priority c = normal"
      by blast
    have "\<not> isHighPriority (apiToFrontendCampaign t c)"
      using c(2) by (rule normal_not_high)
    moreover from this have "apiToFrontendCampaign t c \<notin> set (filteredCampaigns cs q cat sortBy True)"
      using priorityOnly_keeps_high by blast
    ultimately show ?thesis
      using c tiers[OF c(2)] by blast
  qed
  show ?thesis
    using stored default_priority_individual[of b res now idata]
      default_priority_charity[of b res now cdata]
    by (simp add: individual_payload_def charity_payload_def)
qed


lemma maria_submitted:
  "heartchain_campaigns
     (browser_after (handleSubmit all_uploads_succeed 1700000000000 empty_browser maria_form))
   = [maria_campaign]"
proof -
  have u: "upload_from all_uploads_succeed maria_form 0 [] [] = ([], Inr [])"
    by (simp add: upload_from_end maria_form_def)
  have "campaignType maria_form = Some individual"
    and "create_response all_uploads_succeed = OkJson maria_response"
    by (simp_all add: maria_form_def all_uploads_succeed_def)
  then show ?thesis
    by (simp add: handleSubmit_def u browser_after_finish Let_def maria_stored)
qed

theorem wizard_campaigns_are_normal_witness:
  "heartchain_campaigns
     (browser_after (handleSubmit all_uploads_succeed 1700000000000 empty_browser maria_form))
     = [maria_campaign]
   \<and> MockCampaign.priority maria_campaign = normal
   \<and> \<not> isHighPriority (apiToFrontendCampaign 1700172800001 maria_campaign)
   \<and> apiToFrontendCampaign 1700172800001 maria_campaign
       \<notin> set (filteredCampaigns
                 [apiToFrontendCampaign 1700172800001 maria_campaign, sample ''h'' 100 10 5 True]
                 [] ''all'' Priority True)
   \<and> has_window empty_browser
   \<and> (\<exists>c. heartchain_campaigns
              (snd (createIndividualCampaign (OkJson maria_response) 1700000000000 empty_browser
                      ((individual_payload maria_form [])
                         \<lparr>IndividualCampaignCreateRequest.priority := None\<rparr>))) = [c]
          \<and> MockCampaign.priority c = normal)"
proof -
  have idx: "heartchain_campaigns empty_browser = []"
    by (simp add: empty_browser_def)
  have w: "has_window empty_browser"
    by (simp add: empty_browser_def)
  from wizard_campaigns_are_normal[of maria_form "[]" empty_browser maria_response
      1700000000000 "individual_payload maria_form []" "charity_payload charity_form []"
      all_uploads_succeed 1700172800001
      "[apiToFrontendCampaign 1700172800001 maria_campaign, sample ''h'' 100 10 5 True]"
      "[]" "''all''" Priority] w
  have default: "\<exists>c. heartchain_campaigns
              (snd (createIndividualCampaign (OkJson maria_response) 1700000000000 empty_browser
                      ((individual_payload maria_form [])
                         \<lparr>IndividualCampaignCreateRequest.priority := None\<rparr>))) = [c]
          \<and> MockCampaign.priority c = normal"
    unfolding idx by blast
  from wizard_campaigns_are_normal[of maria_form "[]" empty_browser maria_response
      1700000000000 "individual_payload maria_form []" "charity_payload charity_form []"
      all_uploads_succeed 1700172800001
      "[apiToFrontendCampaign 1700172800001 maria_campaign, sample ''h'' 100 10 5 True]"
      "[]" "''all''" Priority]
  have "MockCampaign.priority maria_campaign = normal
   \<and> \<not> isHighPriority (apiToFrontendCampaign 1700172800001 maria_campaign)
   \<and> apiToFrontendCampaign 1700172800001 maria_campaign
       \<notin> set (filteredCampaigns
                 [apiToFrontendCampaign 1700172800001 maria_campaign, sample ''h'' 100 10 5 True]
                 [] ''all'' Priority True)"
    unfolding maria_submitted idx by simp
  with maria_submitted w default show ?thesis
    by simp
qed


section \<open>The browse page: days remaining\<close>



lemma time_clip_invalid:
  "8640000000000000 < \<bar>v\<bar> \<Longrightarrow> time_clip v = None"
  by (simp add: time_clip_def)













end
